theory Spec2Isabelle
  imports Main "HOL-Library.Sublist"
begin

section \<open>Data model of the recovery engine (go/logic/topology\_recovery.go)\<close>

text \<open>
  The structures of package \<open>inst\<close> are declared outside the file under study; the records
  below carry the fields that \<open>topology_recovery.go\<close> reads or writes. Go pointers that may be
  \<open>nil\<close> are options. \<open>AnalysisCode\<close> is a Go string type: codes are strings, and the
  constants used by the dispatcher are the names the file switches on.
\<close>

record InstanceKey =
  Hostname :: string
  Port :: int

record BinlogCoordinates =
  LogFile :: string
  LogPos :: int

datatype PromotionRule =
  MustPromoteRule | PreferPromoteRule | NeutralPromoteRule | PreferNotPromoteRule | MustNotPromoteRule

record Instance =
  Key :: InstanceKey
  MasterKey :: InstanceKey
  InstanceAlias :: string
  ClusterNameOf :: string
  DataCenter :: string
  Region :: string
  PhysicalEnvironment :: string
  InstancePromotionRule :: PromotionRule
  ReadOnly :: bool
  InstanceIsDowntimed :: bool
  AllowTLS :: bool
  HasReplicationCredentials :: bool
  SelfBinlogCoordinates :: BinlogCoordinates
  ExecBinlogCoordinates :: BinlogCoordinates
  SQLThreadUpToDate :: bool
  HasReasonableMaintenanceReplicationLag :: bool

record ClusterInfo =
  ClusterName :: string
  ClusterAlias :: string
  ClusterDomain :: string
  HasAutomatedMasterRecovery :: bool
  HasAutomatedIntermediateMasterRecovery :: bool

type_synonym AnalysisCode = string

record ReplicationAnalysis =
  AnalyzedInstanceKey :: InstanceKey
  AnalyzedInstanceMasterKey :: InstanceKey
  Analysis :: AnalysisCode
  Description :: string
  CommandHint :: string
  ClusterDetails :: ClusterInfo
  AnalyzedInstanceDataCenter :: string
  AnalyzedInstanceRegion :: string
  AnalyzedInstancePhysicalEnvironment :: string
  CountReplicas :: nat
  IsDowntimed :: bool
  SkippableDueToDowntime :: bool
  IsActionableRecovery :: bool
  SlaveHosts :: "InstanceKey list"
  OracleGTIDImmediateTopology :: bool
  MariaDBGTIDImmediateTopology :: bool
  BinlogServerImmediateTopology :: bool

datatype RecoveryType = NoRecoveryType | MasterRecovery | CoMasterRecovery | IntermediateMasterRecovery

datatype MasterRecoveryType =
  NotMasterRecovery | MasterRecoveryGTID | MasterRecoveryPseudoGTID | MasterRecoveryBinlogServer

text \<open>
  Go errors. Errors built in this file have a constructor each (the formatted text is not
  reproduced); an error returned by a collaborator outside the file is \<open>ExternalError\<close>.
\<close>

datatype error =
  ExternalError string
  | ErrGeographicConstraint InstanceKey string
  | ErrFailPromotionSQLThreadNotUpToDate InstanceKey
  | ErrDelayPromotionWait error
  | ErrCoMasterSQLThreadNotUpToDate InstanceKey
  | ErrCouldNotReadCoMaster InstanceKey InstanceKey
  | ErrCouldNotPromoteOtherCoMaster InstanceKey InstanceKey
  | ErrFailedToMatchUpAnyReplica InstanceKey
  | ErrCannotDeduceClusterMaster string
  | ErrNoReplicas InstanceKey
  | ErrMoreThanOneReplica InstanceKey nat
  | ErrDesignatedNotDirectReplica InstanceKey InstanceKey
  | ErrDesignatedBanned InstanceKey
  | ErrSanityDesignatedMaster InstanceKey InstanceKey
  | ErrDesignatedLagging InstanceKey
  | ErrCannotTakeOverSiblings InstanceKey "error option"
  | ErrPreGracefulTakeoverProcesses error
  | ErrRecoveryNotAttempted
  | ErrRecoveryNoResults
  | ErrNoReplicaPromoted "error option"

text \<open>
  A postponed function is a closure in the source; the model keeps which deferred work it is
  and the variables it captured. The description string passed to \<open>AddPostponedFunction\<close> is
  determined by the same data.
\<close>

datatype PostponedFunction =
  MoveBinlogServer InstanceKey BinlogCoordinates InstanceKey
  | DetachLostReplicas "InstanceKey list"
  | DetachLostCoMasterReplicas "InstanceKey list"
  | RelocateReplicasOfPromoted InstanceKey InstanceKey
  | DetachPromotedMasterHost InstanceKey
  | RegroupPostponed string

record TopologyRecovery =
  PostponedFunctions :: "PostponedFunction list"
  Id :: int
  UID :: string
  AnalysisEntry :: ReplicationAnalysis
  SuccessorKey :: "InstanceKey option"
  SuccessorAlias :: string
  IsActive :: bool
  IsSuccessful :: bool
  LostReplicas :: "InstanceKey list"
  ParticipatingInstanceKeys :: "InstanceKey list"
  AllErrors :: "error list"
  RecoveryStartTimestamp :: string
  RecoveryEndTimestamp :: string
  ProcessingNodeHostname :: string
  ProcessingNodeToken :: string
  Acknowledged :: bool
  AcknowledgedAt :: string
  AcknowledgedBy :: string
  AcknowledgedComment :: string
  LastDetectionId :: int
  RelatedRecoveryId :: int
  Type :: RecoveryType
  MasterRecoveryTypeOf :: MasterRecoveryType

text \<open>
  \<open>InstanceKeyMap\<close> is a Go map used as a set of keys; the model keeps the keys in a list
  without repetition. \<open>AddKey\<close> and \<open>AddInstances\<close> add what is not yet there.
\<close>

definition AddKey :: "InstanceKey list \<Rightarrow> InstanceKey \<Rightarrow> InstanceKey list" where
  "AddKey m k = (if k \<in> set m then m else m @ [k])"

definition AddInstances :: "InstanceKey list \<Rightarrow> Instance list \<Rightarrow> InstanceKey list" where
  "AddInstances m is = foldl AddKey m (map Key is)"

definition AddPostponedFunction :: "TopologyRecovery \<Rightarrow> PostponedFunction \<Rightarrow> TopologyRecovery" where
  "AddPostponedFunction tr f = tr\<lparr>PostponedFunctions := PostponedFunctions tr @ [f]\<rparr>"

definition emptyClusterInfo :: ClusterInfo where
  "emptyClusterInfo = \<lparr>ClusterName = [], ClusterAlias = [], ClusterDomain = [],
     HasAutomatedMasterRecovery = False, HasAutomatedIntermediateMasterRecovery = False\<rparr>"

definition emptyKey :: InstanceKey where
  "emptyKey = \<lparr>Hostname = [], Port = 0\<rparr>"

text \<open>The Go zero value of \<open>ReplicationAnalysis\<close> and of \<open>TopologyRecovery\<close>.\<close>

definition zeroReplicationAnalysis :: ReplicationAnalysis where
  "zeroReplicationAnalysis = \<lparr>AnalyzedInstanceKey = emptyKey, AnalyzedInstanceMasterKey = emptyKey,
     Analysis = [], Description = [], CommandHint = [], ClusterDetails = emptyClusterInfo,
     AnalyzedInstanceDataCenter = [], AnalyzedInstanceRegion = [],
     AnalyzedInstancePhysicalEnvironment = [], CountReplicas = 0, IsDowntimed = False,
     SkippableDueToDowntime = False, IsActionableRecovery = False, SlaveHosts = [],
     OracleGTIDImmediateTopology = False, MariaDBGTIDImmediateTopology = False,
     BinlogServerImmediateTopology = False\<rparr>"

definition zeroTopologyRecovery :: TopologyRecovery where
  "zeroTopologyRecovery = \<lparr>PostponedFunctions = [], Id = 0, UID = [],
     AnalysisEntry = zeroReplicationAnalysis, SuccessorKey = None, SuccessorAlias = [],
     IsActive = False, IsSuccessful = False, LostReplicas = [], ParticipatingInstanceKeys = [],
     AllErrors = [], RecoveryStartTimestamp = [], RecoveryEndTimestamp = [],
     ProcessingNodeHostname = [], ProcessingNodeToken = [], Acknowledged = False,
     AcknowledgedAt = [], AcknowledgedBy = [], AcknowledgedComment = [], LastDetectionId = 0,
     RelatedRecoveryId = 0, Type = NoRecoveryType, MasterRecoveryTypeOf = NotMasterRecovery\<rparr>"

text \<open>\<open>NewTopologyRecovery\<close>; the unique token comes from \<open>util.PrettyUniqueToken\<close>.\<close>

definition NewTopologyRecovery :: "string \<Rightarrow> ReplicationAnalysis \<Rightarrow> TopologyRecovery" where
  "NewTopologyRecovery token replicationAnalysis =
     zeroTopologyRecovery\<lparr>UID := token, AnalysisEntry := replicationAnalysis,
       SuccessorKey := None, LostReplicas := [], ParticipatingInstanceKeys := [],
       AllErrors := [], MasterRecoveryTypeOf := NotMasterRecovery\<rparr>"

definition AddError :: "TopologyRecovery \<Rightarrow> error option \<Rightarrow> TopologyRecovery" where
  "AddError tr err = (case err of None \<Rightarrow> tr | Some e \<Rightarrow> tr\<lparr>AllErrors := AllErrors tr @ [e]\<rparr>)"

definition AddErrors :: "TopologyRecovery \<Rightarrow> error list \<Rightarrow> TopologyRecovery" where
  "AddErrors tr errs = foldl (\<lambda>t e. AddError t (Some e)) tr errs"

section \<open>Strings and formatting\<close>

text \<open>
  \<open>strings.Replace(s, old, new, -1)\<close>: every non-overlapping occurrence of \<open>old\<close>, scanning
  from the left, is replaced. With an empty \<open>old\<close> Go inserts \<open>new\<close> before every character
  and at the end.
\<close>

function replaceFrom :: "string \<Rightarrow> string \<Rightarrow> string \<Rightarrow> string" where
  "replaceFrom [] old new = []"
| "replaceFrom (c # cs) old new =
     (if old \<noteq> [] \<and> prefix old (c # cs)
      then new @ replaceFrom (drop (length old) (c # cs)) old new
      else c # replaceFrom cs old new)"
  by pat_completeness auto
termination
  by (relation "measure (\<lambda>(s, old, new). length s)") auto

definition strings_Replace :: "string \<Rightarrow> string \<Rightarrow> string \<Rightarrow> string" where
  "strings_Replace s old new =
     (if old = [] then new @ concat (map (\<lambda>c. c # new) s) else replaceFrom s old new)"

fun strings_Contains :: "string \<Rightarrow> string \<Rightarrow> bool" where
  "strings_Contains [] sub = (sub = [])"
| "strings_Contains (c # cs) sub = (prefix sub (c # cs) \<or> strings_Contains cs sub)"

text \<open>\<open>fmt.Sprintf("%d", n)\<close> and \<open>fmt.Sprint(b)\<close>.\<close>

fun decimal :: "nat \<Rightarrow> string" where
  "decimal n = (if n < 10 then [char_of (48 + n)] else decimal (n div 10) @ [char_of (48 + n mod 10)])"

declare decimal.simps [simp del]

definition Sprintf_d :: "int \<Rightarrow> string" where
  "Sprintf_d i = (if i < 0 then CHR ''-'' # decimal (nat (- i)) else decimal (nat i))"

definition Sprint_bool :: "bool \<Rightarrow> string" where
  "Sprint_bool b = (if b then ''true'' else ''false'')"

section \<open>Collaborators outside the file: calls, answers and the trace\<close>

text \<open>
  Every operation of package \<open>inst\<close> (and of \<open>os\<close>, \<open>kv\<close>, \<open>attributes\<close>, \<open>orcraft\<close>) that the
  file invokes is a \<open>Call\<close>: the name of the operation and its arguments. The world keeps the trace of the calls made so far.
  The collaborators are stateful, so the answer to a call is a function of the trace at the
  moment of the call and of the call itself: two calls with the same arguments may be answered
  differently.
\<close>

datatype GTIDHint = GTIDHintDeny | GTIDHintNeutral | GTIDHintForce

datatype Arg =
  AKey InstanceKey | AKeyOpt "InstanceKey option" | AStr string | ABool bool | ANat nat
  | ACoords BinlogCoordinates | AHint GTIDHint

datatype Call = Call string "Arg list"

abbreviation "CommandRun a b \<equiv> Call ''CommandRun'' [AStr a, AStr b]"

abbreviation "HooksBatch a b \<equiv> Call ''HooksBatch'' [AStr a, ANat b]"

abbreviation "ResolveRecovery a b \<equiv> Call ''ResolveRecovery'' [AStr a, AKeyOpt b]"

abbreviation "RegroupReplicasBinlogServers a \<equiv> Call ''RegroupReplicasBinlogServers'' [AKey a]"

abbreviation "StopSlave a \<equiv> Call ''StopSlave'' [AKey a]"

abbreviation "GetCandidateReplicaOfBinlogServerTopology a \<equiv> Call ''GetCandidateReplicaOfBinlogServerTopology'' [AKey a]"

abbreviation "StartSlaveUntilMasterCoordinates a b \<equiv> Call ''StartSlaveUntilMasterCoordinates'' [AKey a, ACoords b]"

abbreviation "ResetSlave a \<equiv> Call ''ResetSlave'' [AKey a]"

abbreviation "FlushBinaryLogsTo a b \<equiv> Call ''FlushBinaryLogsTo'' [AKey a, AStr b]"

abbreviation "FlushBinaryLogs a b \<equiv> Call ''FlushBinaryLogs'' [AKey a, ANat b]"

abbreviation "PurgeBinaryLogsToLatest a \<equiv> Call ''PurgeBinaryLogsToLatest'' [AKey a]"

abbreviation "SkipToNextBinaryLog a \<equiv> Call ''SkipToNextBinaryLog'' [AKey a]"

abbreviation "Repoint a b c \<equiv> Call ''Repoint'' [AKey a, AKey b, AHint c]"

abbreviation "ReadBinlogServerReplicaInstances a \<equiv> Call ''ReadBinlogServerReplicaInstances'' [AKey a]"

abbreviation "RegroupReplicasGTID a \<equiv> Call ''RegroupReplicasGTID'' [AKey a]"

abbreviation "RegroupReplicasPseudoGTIDIncludingSubReplicasOfBinlogServers a \<equiv> Call ''RegroupReplicasPseudoGTIDIncludingSubReplicasOfBinlogServers'' [AKey a]"

abbreviation "RegroupReplicas a \<equiv> Call ''RegroupReplicas'' [AKey a]"

abbreviation "RelocateReplicas a b \<equiv> Call ''RelocateReplicas'' [AKey a, AKey b]"

abbreviation "SuggestReplacementForPromotedReplica a b c \<equiv> Call ''SuggestReplacementForPromotedReplica'' [AKey a, AKey b, AKeyOpt c]"

abbreviation "TakeMaster a b \<equiv> Call ''TakeMaster'' [AKey a, ABool b]"

abbreviation "ReadInstance a \<equiv> Call ''ReadInstance'' [AKey a]"

abbreviation "GetCandidateSiblingOfIntermediateMaster a \<equiv> Call ''GetCandidateSiblingOfIntermediateMaster'' [AKey a]"

abbreviation "DetachReplicaMasterHost a \<equiv> Call ''DetachReplicaMasterHost'' [AKey a]"

abbreviation "BeginDowntime a \<equiv> Call ''BeginDowntime'' [AKey a]"

abbreviation "EndDowntime a \<equiv> Call ''EndDowntime'' [AKey a]"

abbreviation "AcknowledgeInstanceFailureDetection a \<equiv> Call ''AcknowledgeInstanceFailureDetection'' [AKey a]"

abbreviation "WaitForSQLThreadUpToDate a \<equiv> Call ''WaitForSQLThreadUpToDate'' [AKey a]"

abbreviation "ResetSlaveOperation a \<equiv> Call ''ResetSlaveOperation'' [AKey a]"

abbreviation "SetReadOnly a b \<equiv> Call ''SetReadOnly'' [AKey a, ABool b]"

abbreviation "SetReadOnlyAsync a b \<equiv> Call ''SetReadOnlyAsync'' [AKey a, ABool b]"

abbreviation "PutClusterMasterKV a b \<equiv> Call ''PutClusterMasterKV'' [AStr a, AKey b]"

abbreviation "DistributeClusterMasterKV a b \<equiv> Call ''DistributeClusterMasterKV'' [AStr a, AKey b]"

abbreviation "SetClusterAlias a b \<equiv> Call ''SetClusterAlias'' [AKey a, AStr b]"

abbreviation "ReplaceAliasClusterName a b \<equiv> Call ''ReplaceAliasClusterName'' [AKey a, AKey b]"

abbreviation "SetGeneralAttribute a b \<equiv> Call ''SetGeneralAttribute'' [AStr a, AKey b]"

abbreviation "CounterInc a \<equiv> Call ''CounterInc'' [AStr a]"

abbreviation "AttemptFailureDetectionRegistration a \<equiv> Call ''AttemptFailureDetectionRegistration'' [AKey a]"

abbreviation "RegisterFailureDetection a \<equiv> Call ''RegisterFailureDetection'' [AKey a]"

abbreviation "IsRecoveryDisabled \<equiv> Call ''IsRecoveryDisabled'' []"

abbreviation "WaitPostponedFunctions a \<equiv> Call ''WaitPostponedFunctions'' [ANat a]"

abbreviation "ReadClusterMaster a \<equiv> Call ''ReadClusterMaster'' [AStr a]"

abbreviation "ReadReplicaInstances a \<equiv> Call ''ReadReplicaInstances'' [AKey a]"

abbreviation "GetInstanceMaster a \<equiv> Call ''GetInstanceMaster'' [AKey a]"

abbreviation "ReadReplicationCredentials a \<equiv> Call ''ReadReplicationCredentials'' [AKey a]"

abbreviation "ReadClusterInfoCall a \<equiv> Call ''ReadClusterInfo'' [AStr a]"

abbreviation "GetReplicationAnalysisCall a \<equiv> Call ''GetReplicationAnalysis'' [AStr a]"

abbreviation "WaitForExecBinlogCoordinatesToReach a b \<equiv> Call ''WaitForExecBinlogCoordinatesToReach'' [AKey a, ACoords b]"

abbreviation "ChangeMasterTo a b c d \<equiv> Call ''ChangeMasterTo'' [AKey a, AKey b, ACoords c, AHint d]"

abbreviation "ChangeMasterCredentials a \<equiv> Call ''ChangeMasterCredentials'' [AKey a]"

abbreviation "EnableMasterSSL a \<equiv> Call ''EnableMasterSSL'' [AKey a]"

text \<open>
  The store of recovery records (table \<open>topology_recovery\<close>), reduced to what registration and
  resolution read and write.
\<close>

record RecoveryRow =
  rowUID :: string
  rowFailedKey :: InstanceKey
  rowIsActive :: bool
  rowEndedAt :: "nat option"
  rowSuccessorKey :: "InstanceKey option"

record World =
  trace :: "Call list"
  recoveries :: "RecoveryRow list"
  now :: nat

definition emit :: "Call \<Rightarrow> World \<Rightarrow> World" where
  "emit c w = w\<lparr>trace := trace w @ [c]\<rparr>"

text \<open>
  A call that returns \<open>(*Instance, error)\<close>. Where the file dereferences the instance as soon
  as the error is \<open>nil\<close>, success carries an instance; a failure carries the error and the
  instance pointer returned with it, which may be \<open>nil\<close>.
\<close>

datatype InstResult = Ok Instance | Failed "Instance option" error

text \<open>
  The regroup operations return the lost replicas, the replicas that cannot replicate, the
  promoted replica and an error; they may add postponed functions of their own to the
  container they are given, and they call back \<open>promotedReplicaIsIdeal\<close> on the instances listed
  in \<open>rgIdealQueries\<close>.
\<close>

record RegroupResult =
  rgLost :: "Instance list"
  rgCannotReplicate :: "Instance list"
  rgPromoted :: "Instance option"
  rgErr :: "error option"
  rgPostponed :: "PostponedFunction list"
  rgIdealQueries :: "Instance option list"

text \<open>
  \<open>RelocateReplicas\<close> returns the relocated replicas, the instance they were moved below, an
  error and a list of errors. The file dereferences the second result without a \<open>nil\<close> check.
\<close>

record RelocateResult =
  rlRelocated :: "Instance list"
  rlOther :: Instance
  rlErr :: "error option"
  rlErrs :: "error list"

text \<open>
  \<open>SuggestReplacementForPromotedReplica\<close> ranks candidates read from the metadata store; what
  the executors do with its answer is modelled, the answer is the collaborator's. When it
  reports that action is required with no error, the file dereferences the replacement.
\<close>

datatype Suggestion = SuggestFailed error | NoActionRequired | ActionRequired Instance

record Env =
  ThisHostname :: string
  ToCommaDelimitedList :: "InstanceKey list \<Rightarrow> string"
  PrettyUniqueToken :: "Call list \<Rightarrow> string"
  runCommand :: "Call list \<Rightarrow> string \<Rightarrow> error option"
  instCall :: "Call list \<Rightarrow> Call \<Rightarrow> InstResult"
  listCall :: "Call list \<Rightarrow> Call \<Rightarrow> Instance list \<times> error option"
  regroupCall :: "Call list \<Rightarrow> Call \<Rightarrow> RegroupResult"
  relocateCall :: "Call list \<Rightarrow> Call \<Rightarrow> RelocateResult"
  suggestCall :: "Call list \<Rightarrow> Call \<Rightarrow> Suggestion"
  readInstance :: "Call list \<Rightarrow> InstanceKey \<Rightarrow> Instance option \<times> bool"
  candidateSibling :: "Call list \<Rightarrow> Instance \<Rightarrow> Instance option"
  boolCall :: "Call list \<Rightarrow> Call \<Rightarrow> bool \<times> error option"
  IsRaftEnabled :: bool
  IsLeader :: bool
  isInEmergencyOperationGracefulPeriod :: "InstanceKey \<Rightarrow> bool"
  IsBannedFromBeingCandidateReplica :: "Instance \<Rightarrow> bool"
  IsValidKey :: "InstanceKey \<Rightarrow> bool"
  ReadClusterInfo :: "Call list \<Rightarrow> string \<Rightarrow> error + ClusterInfo"
  GetReplicationAnalysis :: "Call list \<Rightarrow> string \<Rightarrow> ReplicationAnalysis list \<times> error option"
  changeMasterCall :: "Call list \<Rightarrow> Call \<Rightarrow> Instance \<times> error option"

definition callInst :: "Env \<Rightarrow> Call \<Rightarrow> World \<Rightarrow> InstResult \<times> World" where
  "callInst env c w = (instCall env (trace w) c, emit c w)"

definition callList :: "Env \<Rightarrow> Call \<Rightarrow> World \<Rightarrow> (Instance list \<times> error option) \<times> World" where
  "callList env c w = (listCall env (trace w) c, emit c w)"

definition callRegroup :: "Env \<Rightarrow> Call \<Rightarrow> World \<Rightarrow> RegroupResult \<times> World" where
  "callRegroup env c w = (regroupCall env (trace w) c, emit c w)"

definition callRelocate :: "Env \<Rightarrow> Call \<Rightarrow> World \<Rightarrow> RelocateResult \<times> World" where
  "callRelocate env c w = (relocateCall env (trace w) c, emit c w)"

section \<open>Hook commands: placeholder substitution and execution\<close>

definition replaceCommandPlaceholders :: "Env \<Rightarrow> string \<Rightarrow> TopologyRecovery \<Rightarrow> string" where
  "replaceCommandPlaceholders h command topologyRecovery =
     (let analysisEntry = AnalysisEntry topologyRecovery;
          command = strings_Replace command ''{failureType}'' (Analysis analysisEntry);
          command = strings_Replace command ''{failureDescription}'' (Description analysisEntry);
          command = strings_Replace command ''{command}'' (CommandHint analysisEntry);
          command = strings_Replace command ''{failedHost}'' (Hostname (AnalyzedInstanceKey analysisEntry));
          command = strings_Replace command ''{failedPort}'' (Sprintf_d (Port (AnalyzedInstanceKey analysisEntry)));
          command = strings_Replace command ''{failureCluster}'' (ClusterName (ClusterDetails analysisEntry));
          command = strings_Replace command ''{failureClusterAlias}'' (ClusterAlias (ClusterDetails analysisEntry));
          command = strings_Replace command ''{failureClusterDomain}'' (ClusterDomain (ClusterDetails analysisEntry));
          command = strings_Replace command ''{countSlaves}'' (Sprintf_d (int (CountReplicas analysisEntry)));
          command = strings_Replace command ''{countReplicas}'' (Sprintf_d (int (CountReplicas analysisEntry)));
          command = strings_Replace command ''{isDowntimed}'' (Sprint_bool (IsDowntimed analysisEntry));
          command = strings_Replace command ''{autoMasterRecovery}''
                      (Sprint_bool (HasAutomatedMasterRecovery (ClusterDetails analysisEntry)));
          command = strings_Replace command ''{autoIntermediateMasterRecovery}''
                      (Sprint_bool (HasAutomatedIntermediateMasterRecovery (ClusterDetails analysisEntry)));
          command = strings_Replace command ''{orchestratorHost}'' (ThisHostname h);
          command = strings_Replace command ''{recoveryUID}'' (UID topologyRecovery);
          command = strings_Replace command ''{isSuccessful}''
                      (Sprint_bool (SuccessorKey topologyRecovery \<noteq> None));
          command =
            (case SuccessorKey topologyRecovery of
               None \<Rightarrow> command
             | Some successorKey \<Rightarrow>
                 (let command = strings_Replace command ''{successorHost}'' (Hostname successorKey);
                      command = strings_Replace command ''{successorPort}'' (Sprintf_d (Port successorKey));
                      command = strings_Replace command ''{successorAlias}'' (SuccessorAlias topologyRecovery)
                  in command));
          command = strings_Replace command ''{lostSlaves}''
                      (ToCommaDelimitedList h (LostReplicas topologyRecovery));
          command = strings_Replace command ''{lostReplicas}''
                      (ToCommaDelimitedList h (LostReplicas topologyRecovery));
          command = strings_Replace command ''{countLostReplicas}''
                      (Sprintf_d (int (length (LostReplicas topologyRecovery))));
          command = strings_Replace command ''{slaveHosts}''
                      (ToCommaDelimitedList h (SlaveHosts analysisEntry));
          command = strings_Replace command ''{replicaHosts}''
                      (ToCommaDelimitedList h (SlaveHosts analysisEntry))
      in command)"

text \<open>The placeholders that are substituted whether or not a successor exists.\<close>

definition unconditionalPlaceholders :: "string list" where
  "unconditionalPlaceholders =
     [''{failureType}'', ''{failureDescription}'', ''{command}'', ''{failedHost}'', ''{failedPort}'',
      ''{failureCluster}'', ''{failureClusterAlias}'', ''{failureClusterDomain}'', ''{countSlaves}'',
      ''{countReplicas}'', ''{isDowntimed}'', ''{autoMasterRecovery}'',
      ''{autoIntermediateMasterRecovery}'', ''{orchestratorHost}'', ''{recoveryUID}'',
      ''{isSuccessful}'', ''{lostSlaves}'', ''{lostReplicas}'', ''{countLostReplicas}'',
      ''{slaveHosts}'', ''{replicaHosts}'']"

text \<open>
  The hook contract of the spec as a table: the placeholders with the values they stand for,
  in the order of substitution. The three placeholders of the successor are in the table only
  when the recovery has a successor. \<open>substituteAll\<close> applies a table from left to right.
\<close>

definition substituteAll :: "(string \<times> string) list \<Rightarrow> string \<Rightarrow> string" where
  "substituteAll table command =
     foldl (\<lambda>c (placeholder, v). strings_Replace c placeholder v) command table"

definition successorPlaceholders :: "string list" where
  "successorPlaceholders = [''{successorHost}'', ''{successorPort}'', ''{successorAlias}'']"

definition placeholderTable :: "Env \<Rightarrow> TopologyRecovery \<Rightarrow> (string \<times> string) list" where
  "placeholderTable env topologyRecovery =
     (let analysisEntry = AnalysisEntry topologyRecovery in
      [(''{failureType}'', Analysis analysisEntry),
       (''{failureDescription}'', Description analysisEntry),
       (''{command}'', CommandHint analysisEntry),
       (''{failedHost}'', Hostname (AnalyzedInstanceKey analysisEntry)),
       (''{failedPort}'', Sprintf_d (Port (AnalyzedInstanceKey analysisEntry))),
       (''{failureCluster}'', ClusterName (ClusterDetails analysisEntry)),
       (''{failureClusterAlias}'', ClusterAlias (ClusterDetails analysisEntry)),
       (''{failureClusterDomain}'', ClusterDomain (ClusterDetails analysisEntry)),
       (''{countSlaves}'', Sprintf_d (int (CountReplicas analysisEntry))),
       (''{countReplicas}'', Sprintf_d (int (CountReplicas analysisEntry))),
       (''{isDowntimed}'', Sprint_bool (IsDowntimed analysisEntry)),
       (''{autoMasterRecovery}'',
          Sprint_bool (HasAutomatedMasterRecovery (ClusterDetails analysisEntry))),
       (''{autoIntermediateMasterRecovery}'',
          Sprint_bool (HasAutomatedIntermediateMasterRecovery (ClusterDetails analysisEntry))),
       (''{orchestratorHost}'', ThisHostname env),
       (''{recoveryUID}'', UID topologyRecovery),
       (''{isSuccessful}'', Sprint_bool (SuccessorKey topologyRecovery \<noteq> None))]
      @ (case SuccessorKey topologyRecovery of
           None \<Rightarrow> []
         | Some successorKey \<Rightarrow>
             [(''{successorHost}'', Hostname successorKey),
              (''{successorPort}'', Sprintf_d (Port successorKey)),
              (''{successorAlias}'', SuccessorAlias topologyRecovery)])
      @ [(''{lostSlaves}'', ToCommaDelimitedList env (LostReplicas topologyRecovery)),
         (''{lostReplicas}'', ToCommaDelimitedList env (LostReplicas topologyRecovery)),
         (''{countLostReplicas}'', Sprintf_d (int (length (LostReplicas topologyRecovery)))),
         (''{slaveHosts}'', ToCommaDelimitedList env (SlaveHosts analysisEntry)),
         (''{replicaHosts}'', ToCommaDelimitedList env (SlaveHosts analysisEntry))])"

text \<open>
  The shape of every placeholder: an opening brace, a name without braces, a closing brace.
\<close>

definition placeholderShaped :: "string \<Rightarrow> bool" where
  "placeholderShaped p =
     (case p of
        [] \<Rightarrow> False
      | c # r \<Rightarrow> c = CHR ''{'' \<and> r \<noteq> [] \<and> last r = CHR ''}''
                 \<and> CHR ''{'' \<notin> set r \<and> CHR ''}'' \<notin> set (butlast r))"

record Config =
  PreFailoverProcesses :: "string list"
  PostFailoverProcesses :: "string list"
  PostUnsuccessfulFailoverProcesses :: "string list"
  PostMasterFailoverProcesses :: "string list"
  PostIntermediateMasterFailoverProcesses :: "string list"
  OnFailureDetectionProcesses :: "string list"
  PreGracefulTakeoverProcesses :: "string list"
  PostGracefulTakeoverProcesses :: "string list"
  PreventCrossDataCenterMasterFailover :: bool
  PreventCrossRegionMasterFailover :: bool
  FailMasterPromotionIfSQLThreadNotUpToDate :: bool
  DelayMasterPromotionIfSQLThreadNotUpToDate :: bool
  ApplyMySQLPromotionAfterMasterFailover :: bool
  MasterFailoverDetachReplicaMasterHost :: bool
  DetachLostReplicasAfterMasterFailover :: bool
  CoMasterRecoveryMustPromoteOtherCoMaster :: bool
  RecoveryCooldownSeconds :: nat

text \<open>
  \<open>executeProcesses\<close>: the loop over the hooks of a batch. The first error is kept; with
  \<open>failOnError\<close> the batch stops at it. The audit step that opens the batch is the call
  \<open>HooksBatch\<close> (it is written whether or not the batch has hooks).
\<close>

fun runProcesses ::
  "Env \<Rightarrow> string \<Rightarrow> TopologyRecovery \<Rightarrow> bool \<Rightarrow> string list \<Rightarrow> error option \<Rightarrow> World
     \<Rightarrow> error option \<times> World" where
  "runProcesses env description topologyRecovery failOnError [] err w = (err, w)"
| "runProcesses env description topologyRecovery failOnError (command # rest) err w =
     (let command = replaceCommandPlaceholders env command topologyRecovery;
          cmdErr = runCommand env (trace w) command;
          w = emit (CommandRun description command) w
      in case cmdErr of
           None \<Rightarrow> runProcesses env description topologyRecovery failOnError rest err w
         | Some e \<Rightarrow>
             (let err = (case err of None \<Rightarrow> Some e | Some first \<Rightarrow> Some first)
              in if failOnError then (err, w)
                 else runProcesses env description topologyRecovery failOnError rest err w))"

definition executeProcesses ::
  "Env \<Rightarrow> string list \<Rightarrow> string \<Rightarrow> TopologyRecovery \<Rightarrow> bool \<Rightarrow> World \<Rightarrow> error option \<times> World" where
  "executeProcesses env processes description topologyRecovery failOnError w =
     (let w = emit (HooksBatch description (length processes)) w
      in if processes = [] then (None, w)
         else runProcesses env description topologyRecovery failOnError processes None w)"

section \<open>Resolution of a recovery\<close>

text \<open>
  Modelled from the spec: \<open>writeResolveRecovery\<close> is not in the file. The spec says that a
  recovery holds the active-record slot of its failed key from registration and releases it on
  resolution, and that resolution records the end timestamp and the successor.
\<close>

definition writeResolveRecovery :: "TopologyRecovery \<Rightarrow> World \<Rightarrow> World" where
  "writeResolveRecovery topologyRecovery w =
     w\<lparr>recoveries := map (\<lambda>r. if rowUID r = UID topologyRecovery
                               then r\<lparr>rowIsActive := False, rowEndedAt := Some (now w),
                                      rowSuccessorKey := SuccessorKey topologyRecovery\<rparr>
                               else r) (recoveries w)\<rparr>"

text \<open>
  \<open>resolveRecovery\<close>: with raft the record is published as \<open>resolve-recovery\<close> and applied
  on delivery, without raft it is written directly; both are the call \<open>ResolveRecovery\<close>
  followed by the write. Every caller ignores the error it returns.
\<close>

definition resolveRecovery ::
  "TopologyRecovery \<Rightarrow> Instance option \<Rightarrow> World \<Rightarrow> TopologyRecovery \<times> World" where
  "resolveRecovery topologyRecovery successorInstance w =
     (let topologyRecovery =
            (case successorInstance of
               None \<Rightarrow> topologyRecovery
             | Some s \<Rightarrow> topologyRecovery\<lparr>SuccessorKey := Some (Key s),
                           SuccessorAlias := InstanceAlias s, IsSuccessful := True\<rparr>);
          w = emit (ResolveRecovery (UID topologyRecovery) (SuccessorKey topologyRecovery)) w
      in (topologyRecovery, writeResolveRecovery topologyRecovery w))"

section \<open>Dead master recovery\<close>

text \<open>The anonymous function at the end of \<open>recoverDeadMasterInBinlogServerTopology\<close>: its loop.\<close>

fun addBinlogServerMoves ::
  "nat \<Rightarrow> nat \<Rightarrow> Instance \<Rightarrow> Instance \<Rightarrow> Instance list \<Rightarrow> TopologyRecovery \<Rightarrow> TopologyRecovery" where
  "addBinlogServerMoves maxBinlogServersToPromote i promotedBinlogServer promotedReplica []
     topologyRecovery = topologyRecovery"
| "addBinlogServerMoves maxBinlogServersToPromote i promotedBinlogServer promotedReplica
     (binlogServerReplica # rest) topologyRecovery =
     (if i \<ge> maxBinlogServersToPromote then topologyRecovery
      else addBinlogServerMoves maxBinlogServersToPromote (Suc i) promotedBinlogServer promotedReplica rest
             (AddPostponedFunction topologyRecovery
                (MoveBinlogServer (Key binlogServerReplica)
                   (ExecBinlogCoordinates promotedBinlogServer) (Key promotedReplica))))"

definition moveBinlogServerReplicas ::
  "Env \<Rightarrow> Instance \<Rightarrow> Instance \<Rightarrow> TopologyRecovery \<Rightarrow> World \<Rightarrow> TopologyRecovery \<times> World" where
  "moveBinlogServerReplicas env promotedBinlogServer promotedReplica topologyRecovery w =
     (case callList env (ReadBinlogServerReplicaInstances (Key promotedBinlogServer)) w of
        ((binlogServerReplicas, Some err), w) \<Rightarrow> (topologyRecovery, w)
      | ((binlogServerReplicas, None), w) \<Rightarrow>
          (addBinlogServerMoves 3 0 promotedBinlogServer promotedReplica binlogServerReplicas
             topologyRecovery, w))"

definition recoverDeadMasterInBinlogServerTopology ::
  "Env \<Rightarrow> TopologyRecovery \<Rightarrow> World \<Rightarrow> (Instance option \<times> error option) \<times> TopologyRecovery \<times> World" where
  "recoverDeadMasterInBinlogServerTopology env topologyRecovery w =
     (let failedMasterKey = AnalyzedInstanceKey (AnalysisEntry topologyRecovery) in
      case callInst env (RegroupReplicasBinlogServers failedMasterKey) w of
        (Failed x err, w) \<Rightarrow> ((None, Some err), topologyRecovery, w)
      | (Ok promotedBinlogServer, w) \<Rightarrow>
      (case callInst env (StopSlave (Key promotedBinlogServer)) w of
        (Failed x err, w) \<Rightarrow> ((None, Some err), topologyRecovery, w)
      | (Ok promotedBinlogServer, w) \<Rightarrow>
      (case callInst env (GetCandidateReplicaOfBinlogServerTopology (Key promotedBinlogServer)) w of
        (Failed promotedReplica err, w) \<Rightarrow> ((promotedReplica, Some err), topologyRecovery, w)
      | (Ok promotedReplica, w) \<Rightarrow>
      (case callInst env (StopSlave (Key promotedReplica)) w of
        (Failed promotedReplica err, w) \<Rightarrow> ((promotedReplica, Some err), topologyRecovery, w)
      | (Ok promotedReplica, w) \<Rightarrow>
      (case callInst env (StartSlaveUntilMasterCoordinates (Key promotedReplica)
                            (ExecBinlogCoordinates promotedBinlogServer)) w of
        (Failed promotedReplica err, w) \<Rightarrow> ((promotedReplica, Some err), topologyRecovery, w)
      | (Ok promotedReplica, w) \<Rightarrow>
      (case callInst env (StopSlave (Key promotedReplica)) w of
        (Failed promotedReplica err, w) \<Rightarrow> ((promotedReplica, Some err), topologyRecovery, w)
      | (Ok promotedReplica, w) \<Rightarrow>
      (case callInst env (ResetSlave (Key promotedReplica)) w of
        (Failed promotedReplica err, w) \<Rightarrow> ((promotedReplica, Some err), topologyRecovery, w)
      | (Ok promotedReplica, w) \<Rightarrow>
      (case callInst env (FlushBinaryLogsTo (Key promotedReplica)
                            (LogFile (ExecBinlogCoordinates promotedBinlogServer))) w of
        (Failed promotedReplica err, w) \<Rightarrow> ((promotedReplica, Some err), topologyRecovery, w)
      | (Ok promotedReplica, w) \<Rightarrow>
      (case callInst env (FlushBinaryLogs (Key promotedReplica) 1) w of
        (Failed promotedReplica err, w) \<Rightarrow> ((promotedReplica, Some err), topologyRecovery, w)
      | (Ok promotedReplica, w) \<Rightarrow>
      (case callInst env (PurgeBinaryLogsToLatest (Key promotedReplica)) w of
        (Failed promotedReplica err, w) \<Rightarrow> ((promotedReplica, Some err), topologyRecovery, w)
      | (Ok promotedReplica, w) \<Rightarrow>
      (case callInst env (SkipToNextBinaryLog (Key promotedBinlogServer)) w of
        (Failed x err, w) \<Rightarrow> ((Some promotedReplica, Some err), topologyRecovery, w)
      | (Ok promotedBinlogServer, w) \<Rightarrow>
      (case callInst env (Repoint (Key promotedBinlogServer) (Key promotedReplica) GTIDHintDeny) w of
        (Failed x err, w) \<Rightarrow> ((None, Some err), topologyRecovery, w)
      | (Ok promotedBinlogServer, w) \<Rightarrow>
      (case moveBinlogServerReplicas env promotedBinlogServer promotedReplica topologyRecovery w of
        (topologyRecovery, w) \<Rightarrow> ((Some promotedReplica, None), topologyRecovery, w))))))))))))))"

text \<open>\<open>MasterFailoverGeographicConstraintSatisfied\<close>, with the reason it formats.\<close>

definition MasterFailoverGeographicConstraintSatisfied ::
  "Config \<Rightarrow> ReplicationAnalysis \<Rightarrow> Instance \<Rightarrow> bool \<times> string" where
  "MasterFailoverGeographicConstraintSatisfied cfg analysisEntry suggestedInstance =
     (if PreventCrossDataCenterMasterFailover cfg
         \<and> DataCenter suggestedInstance \<noteq> AnalyzedInstanceDataCenter analysisEntry
      then (False, ''PreventCrossDataCenterMasterFailover: will not promote server in ''
                   @ DataCenter suggestedInstance @ '' when failed server in ''
                   @ AnalyzedInstanceDataCenter analysisEntry)
      else if PreventCrossRegionMasterFailover cfg
         \<and> Region suggestedInstance \<noteq> AnalyzedInstanceRegion analysisEntry
      then (False, ''PreventCrossRegionMasterFailover: will not promote server in ''
                   @ Region suggestedInstance @ '' when failed server in ''
                   @ AnalyzedInstanceRegion analysisEntry)
      else (True, []))"

text \<open>
  The closure \<open>promotedReplicaIsIdeal\<close> of \<open>recoverDeadMaster\<close>: its result, and whether the
  call sets the captured variable \<open>postponedAll\<close>.
\<close>

definition promotedReplicaIsIdeal ::
  "TopologyRecovery \<Rightarrow> InstanceKey option \<Rightarrow> Instance option \<Rightarrow> bool \<times> bool" where
  "promotedReplicaIsIdeal topologyRecovery candidateInstanceKey promoted =
     (case promoted of
        None \<Rightarrow> (False, False)
      | Some promoted \<Rightarrow>
          if candidateInstanceKey = Some (Key promoted) then (True, False)
          else if candidateInstanceKey = None
                  \<and> (InstancePromotionRule promoted = MustPromoteRule
                       \<or> InstancePromotionRule promoted = PreferPromoteRule)
                  \<and> DataCenter promoted = AnalyzedInstanceDataCenter (AnalysisEntry topologyRecovery)
                  \<and> PhysicalEnvironment promoted
                       = AnalyzedInstancePhysicalEnvironment (AnalysisEntry topologyRecovery)
          then (True, True)
          else (False, False))"

text \<open>
  \<open>replacePromotedReplicaWithCandidate\<close>. The address of the recovery's postponed functions
  container is never \<open>nil\<close>, so the relocation of the remaining replicas is always postponed.
\<close>

definition replacePromotedReplicaWithCandidate ::
  "Env \<Rightarrow> TopologyRecovery \<Rightarrow> InstanceKey \<Rightarrow> Instance \<Rightarrow> InstanceKey option \<Rightarrow> World
     \<Rightarrow> (Instance option \<times> error option) \<times> TopologyRecovery \<times> World" where
  "replacePromotedReplicaWithCandidate env topologyRecovery deadInstanceKey promotedReplica
       candidateInstanceKey w =
     (let c = SuggestReplacementForPromotedReplica deadInstanceKey (Key promotedReplica)
                candidateInstanceKey;
          suggestion = suggestCall env (trace w) c;
          w = emit c w
      in case suggestion of
           SuggestFailed err \<Rightarrow> ((Some promotedReplica, Some err), topologyRecovery, w)
         | NoActionRequired \<Rightarrow> ((Some promotedReplica, None), topologyRecovery, w)
         | ActionRequired candidateInstance \<Rightarrow>
             if MasterKey candidateInstance = Key promotedReplica
             then (case callInst env (TakeMaster (Key candidateInstance)
                                        (Type topologyRecovery = CoMasterRecovery)) w of
                     (Failed x err, w) \<Rightarrow> ((Some promotedReplica, Some err), topologyRecovery, w)
                   | (Ok candidateInstance, w) \<Rightarrow>
                       ((Some candidateInstance, None),
                        AddPostponedFunction topologyRecovery
                          (RelocateReplicasOfPromoted (Key promotedReplica) (Key candidateInstance)),
                        w))
             else ((Some promotedReplica, None), topologyRecovery, w))"

text \<open>
  \<open>recoverDeadMaster\<close>. Audit and log lines are not modelled. The block that downtimes the
  failed instance and the lost replicas is the calls \<open>BeginDowntime\<close> and
  \<open>AcknowledgeInstanceFailureDetection\<close>.
\<close>

definition beginDowntimeOfLost :: "InstanceKey \<Rightarrow> Instance list \<Rightarrow> World \<Rightarrow> World" where
  "beginDowntimeOfLost failedInstanceKey lostReplicas w =
     foldl (\<lambda>w replica. emit (BeginDowntime (Key replica)) w)
       (emit (AcknowledgeInstanceFailureDetection failedInstanceKey)
          (emit (BeginDowntime failedInstanceKey) w))
       lostReplicas"

definition recoverDeadMaster ::
  "Config \<Rightarrow> Env \<Rightarrow> TopologyRecovery \<Rightarrow> InstanceKey option \<Rightarrow> bool \<Rightarrow> World
     \<Rightarrow> (Instance option \<times> Instance list \<times> error option) \<times> TopologyRecovery \<times> World" where
  "recoverDeadMaster cfg env topologyRecovery candidateInstanceKey skipProcesses w =
     (let topologyRecovery = topologyRecovery\<lparr>Type := MasterRecovery\<rparr>;
          analysisEntry = AnalysisEntry topologyRecovery;
          failedInstanceKey = AnalyzedInstanceKey analysisEntry;
          (preErr, w) =
            (if \<not> skipProcesses
             then executeProcesses env (PreFailoverProcesses cfg) ''PreFailoverProcesses''
                    topologyRecovery True w
             else (None, w))
      in case preErr of
           Some err \<Rightarrow> ((None, [], Some err), AddError topologyRecovery (Some err), w)
         | None \<Rightarrow>
      (let masterRecoveryType =
             (if OracleGTIDImmediateTopology analysisEntry \<or> MariaDBGTIDImmediateTopology analysisEntry
              then MasterRecoveryGTID
              else if BinlogServerImmediateTopology analysisEntry then MasterRecoveryBinlogServer
              else MasterRecoveryPseudoGTID);
           topologyRecovery = topologyRecovery\<lparr>MasterRecoveryTypeOf := masterRecoveryType\<rparr>;
           viaRegroup = (\<lambda>c. let (r, w) = callRegroup env c w in
              ((rgLost r, rgCannotReplicate r, rgPromoted r, rgErr r,
                list_ex (\<lambda>q. snd (promotedReplicaIsIdeal topologyRecovery candidateInstanceKey q))
                  (rgIdealQueries r)),
               topologyRecovery\<lparr>PostponedFunctions :=
                 PostponedFunctions topologyRecovery @ rgPostponed r\<rparr>, w));
           ((lostReplicas, cannotReplicateReplicas, promotedReplica, err, postponedAll),
            topologyRecovery, w) =
             (case masterRecoveryType of
                MasterRecoveryGTID \<Rightarrow> viaRegroup (RegroupReplicasGTID failedInstanceKey)
              | MasterRecoveryPseudoGTID \<Rightarrow>
                  viaRegroup (RegroupReplicasPseudoGTIDIncludingSubReplicasOfBinlogServers
                                failedInstanceKey)
              | MasterRecoveryBinlogServer \<Rightarrow>
                  (case recoverDeadMasterInBinlogServerTopology env topologyRecovery w of
                     ((promoted, err), topologyRecovery, w) \<Rightarrow>
                       (([], [], promoted, err, False), topologyRecovery, w))
              | NotMasterRecovery \<Rightarrow> (([], [], None, None, False), topologyRecovery, w));
           topologyRecovery = AddError topologyRecovery err;
           lostReplicas = lostReplicas @ cannotReplicateReplicas;
           topologyRecovery =
             (if promotedReplica \<noteq> None \<and> lostReplicas \<noteq> []
                 \<and> DetachLostReplicasAfterMasterFailover cfg
              then AddPostponedFunction topologyRecovery (DetachLostReplicas (map Key lostReplicas))
              else topologyRecovery);
           w = beginDowntimeOfLost failedInstanceKey lostReplicas w
       in case promotedReplica of
            None \<Rightarrow> ((None, lostReplicas, err), topologyRecovery, w)
          | Some promoted \<Rightarrow>
              if \<not> postponedAll
              then (case replacePromotedReplicaWithCandidate env topologyRecovery failedInstanceKey
                           promoted candidateInstanceKey w of
                      ((promotedReplica, err), topologyRecovery, w) \<Rightarrow>
                        ((promotedReplica, lostReplicas, err), AddError topologyRecovery err, w))
              else ((Some promoted, lostReplicas, err), topologyRecovery, w)))"

text \<open>The closure \<open>overrideMasterPromotion\<close> of \<open>checkAndRecoverDeadMaster\<close>.\<close>

definition overrideMasterPromotion ::
  "Config \<Rightarrow> Env \<Rightarrow> ReplicationAnalysis \<Rightarrow> Instance option \<Rightarrow> error option \<Rightarrow> World
     \<Rightarrow> (Instance option \<times> error option) \<times> World" where
  "overrideMasterPromotion cfg env analysisEntry promotedReplica err w =
     (case promotedReplica of
        None \<Rightarrow> ((None, err), w)
      | Some promoted \<Rightarrow>
          (case MasterFailoverGeographicConstraintSatisfied cfg analysisEntry promoted of
             (False, reason) \<Rightarrow> ((None, Some (ErrGeographicConstraint (Key promoted) reason)), w)
           | (True, reason) \<Rightarrow>
               if FailMasterPromotionIfSQLThreadNotUpToDate cfg \<and> \<not> SQLThreadUpToDate promoted
               then ((None, Some (ErrFailPromotionSQLThreadNotUpToDate (Key promoted))), w)
               else if DelayMasterPromotionIfSQLThreadNotUpToDate cfg \<and> \<not> SQLThreadUpToDate promoted
               then (case callInst env (WaitForSQLThreadUpToDate (Key promoted)) w of
                       (Failed x e, w) \<Rightarrow> ((None, Some (ErrDelayPromotionWait e)), w)
                     | (Ok x, w) \<Rightarrow> ((Some promoted, err), w))
               else ((Some promoted, err), w)))"

section \<open>Registration of a recovery\<close>

text \<open>
  Modelled from the spec: \<open>AttemptRecoveryRegistration\<close> is not in the file; it belongs to the
  recovery record store. The spec (4.1) gives \<open>registerAttempt(analysis, failIfActive,
  failIfRecent)\<close>: it tests that there is no active record for the failed key (when
  \<open>failIfActive\<close>) and no recent completed record within the operator-configured cooldown (when
  \<open>failIfRecent\<close>); if either check fails it returns nil, not an error; otherwise it persists
  a new record with a generated UID and returns it.
\<close>

abbreviation "RegisterRecovery a b \<equiv> Call ''RegisterRecovery'' [AStr a, AKey b]"

definition activeRecoveries :: "InstanceKey \<Rightarrow> World \<Rightarrow> RecoveryRow list" where
  "activeRecoveries k w = filter (\<lambda>r. rowFailedKey r = k \<and> rowIsActive r) (recoveries w)"

definition recentRecoveries :: "Config \<Rightarrow> InstanceKey \<Rightarrow> World \<Rightarrow> RecoveryRow list" where
  "recentRecoveries cfg k w =
     filter (\<lambda>r. rowFailedKey r = k \<and> \<not> rowIsActive r
                 \<and> (case rowEndedAt r of None \<Rightarrow> False
                     | Some t \<Rightarrow> now w < t + RecoveryCooldownSeconds cfg))
       (recoveries w)"

definition AttemptRecoveryRegistration ::
  "Config \<Rightarrow> Env \<Rightarrow> ReplicationAnalysis \<Rightarrow> bool \<Rightarrow> bool \<Rightarrow> World
     \<Rightarrow> (TopologyRecovery option \<times> error option) \<times> World" where
  "AttemptRecoveryRegistration cfg env analysisEntry failIfActive failIfRecent w =
     (let k = AnalyzedInstanceKey analysisEntry in
      if failIfActive \<and> activeRecoveries k w \<noteq> [] then ((None, None), w)
      else if failIfRecent \<and> recentRecoveries cfg k w \<noteq> [] then ((None, None), w)
      else
        (let topologyRecovery =
               (NewTopologyRecovery (PrettyUniqueToken env (trace w)) analysisEntry)
                 \<lparr>IsActive := True\<rparr>;
             row = \<lparr>rowUID = UID topologyRecovery, rowFailedKey = k, rowIsActive = True,
                    rowEndedAt = None, rowSuccessorKey = None\<rparr>;
             w = emit (RegisterRecovery (UID topologyRecovery) k) w
         in ((Some topologyRecovery, None), w\<lparr>recoveries := recoveries w @ [row]\<rparr>)))"

section \<open>The executors\<close>

text \<open>Command hints are constants of package \<open>inst\<close>.\<close>

definition GracefulMasterTakeoverCommandHint :: string where
  "GracefulMasterTakeoverCommandHint = ''graceful-master-takeover''"

definition ForceMasterFailoverCommandHint :: string where
  "ForceMasterFailoverCommandHint = ''force-master-failover''"

text \<open>
  \<open>checkAndRecoverDeadMaster\<close>. What follows a successful promotion is kept in source order:
  the MySQL changes on the promoted master (with one retry of \<open>ResetSlaveOperation\<close>), the
  key-value pairs of the new master, the postponed detach, the cluster alias, the general
  attribute and the post master failover hooks. Setting the old master read-only is started in
  a goroutine; it is the call \<open>SetReadOnlyAsync\<close> at the point where it is started.
\<close>

definition applyMySQLPromotion :: "Env \<Rightarrow> InstanceKey \<Rightarrow> InstanceKey \<Rightarrow> World \<Rightarrow> World" where
  "applyMySQLPromotion env promotedKey failedKey w =
     (let (r, w) = callInst env (ResetSlaveOperation promotedKey) w;
          w = (case r of Failed x e \<Rightarrow> snd (callInst env (ResetSlaveOperation promotedKey) w)
               | Ok x \<Rightarrow> w);
          w = emit (SetReadOnly promotedKey False) w
      in emit (SetReadOnlyAsync failedKey True) w)"

definition checkAndRecoverDeadMaster ::
  "Config \<Rightarrow> Env \<Rightarrow> ReplicationAnalysis \<Rightarrow> InstanceKey option \<Rightarrow> bool \<Rightarrow> bool \<Rightarrow> World
     \<Rightarrow> (bool \<times> TopologyRecovery option \<times> error option) \<times> World" where
  "checkAndRecoverDeadMaster cfg env analysisEntry candidateInstanceKey forceInstanceRecovery
       skipProcesses w =
     (if \<not> (forceInstanceRecovery \<or> HasAutomatedMasterRecovery (ClusterDetails analysisEntry))
      then ((False, None, None), w)
      else
      case AttemptRecoveryRegistration cfg env analysisEntry (\<not> forceInstanceRecovery)
             (\<not> forceInstanceRecovery) w of
        ((None, err), w) \<Rightarrow> ((False, None, err), w)
      | ((Some topologyRecovery, err), w) \<Rightarrow>
      (let w = emit (CounterInc ''recover.dead_master.start'') w;
           ((promotedReplica, lostReplicas, err), topologyRecovery, w) =
             recoverDeadMaster cfg env topologyRecovery candidateInstanceKey skipProcesses w;
           topologyRecovery = topologyRecovery\<lparr>LostReplicas :=
             AddInstances (LostReplicas topologyRecovery) lostReplicas\<rparr>;
           ((promotedReplica, err), w) =
             overrideMasterPromotion cfg env analysisEntry promotedReplica err w;
           (topologyRecovery, w) = resolveRecovery topologyRecovery promotedReplica w
       in case promotedReplica of
            None \<Rightarrow> ((True, Some topologyRecovery, err),
                     emit (CounterInc ''recover.dead_master.fail'') w)
          | Some promoted \<Rightarrow>
              (let w = emit (CounterInc ''recover.dead_master.success'') w;
                   w = (if ApplyMySQLPromotionAfterMasterFailover cfg
                           \<or> CommandHint analysisEntry = GracefulMasterTakeoverCommandHint
                        then applyMySQLPromotion env (Key promoted)
                               (AnalyzedInstanceKey analysisEntry) w
                        else w);
                   w = emit (PutClusterMasterKV (ClusterAlias (ClusterDetails analysisEntry))
                               (Key promoted)) w;
                   w = emit (DistributeClusterMasterKV (ClusterAlias (ClusterDetails analysisEntry))
                               (Key promoted)) w;
                   topologyRecovery =
                     (if MasterFailoverDetachReplicaMasterHost cfg
                      then AddPostponedFunction topologyRecovery
                             (DetachPromotedMasterHost (Key promoted))
                      else topologyRecovery);
                   w = (if ClusterAlias (ClusterDetails analysisEntry) \<noteq> []
                        then emit (SetClusterAlias (Key promoted)
                                     (ClusterAlias (ClusterDetails analysisEntry))) w
                        else emit (ReplaceAliasClusterName (AnalyzedInstanceKey analysisEntry)
                                     (Key promoted)) w);
                   w = emit (SetGeneralAttribute (ClusterDomain (ClusterDetails analysisEntry))
                               (Key promoted)) w;
                   w = (if \<not> skipProcesses
                        then snd (executeProcesses env (PostMasterFailoverProcesses cfg)
                                    ''PostMasterFailoverProcesses'' topologyRecovery False w)
                        else w)
               in ((True, Some topologyRecovery, err), w))))"

section \<open>Dead intermediate master recovery\<close>

text \<open>
  \<open>GetCandidateSiblingOfIntermediateMaster\<close> reads and ranks the siblings of the failed
  instance; its answer is the collaborator's (\<open>candidateSibling\<close>), and the executor ignores the
  error it returns. The closure \<open>relocateReplicasToCandidateSibling\<close> works on the captured
  variables \<open>topologyRecovery\<close>, \<open>recoveryResolved\<close> and \<open>successorInstance\<close>, which are its state here.
\<close>

type_synonym IMState = "TopologyRecovery \<times> bool \<times> Instance option"

definition relocateReplicasToCandidateSibling ::
  "Env \<Rightarrow> InstanceKey \<Rightarrow> Instance option \<Rightarrow> IMState \<Rightarrow> World \<Rightarrow> IMState \<times> World" where
  "relocateReplicasToCandidateSibling env failedInstanceKey candidateSiblingOfIntermediateMaster st w =
     (case st of (topologyRecovery, recoveryResolved, successorInstance) \<Rightarrow>
      case candidateSiblingOfIntermediateMaster of
        None \<Rightarrow> (st, w)
      | Some candidate \<Rightarrow>
          (let (r, w) = callRelocate env (RelocateReplicas failedInstanceKey (Key candidate)) w;
               topologyRecovery = AddErrors topologyRecovery (rlErrs r);
               topologyRecovery = topologyRecovery\<lparr>ParticipatingInstanceKeys :=
                 AddKey (ParticipatingInstanceKeys topologyRecovery) (Key candidate)\<rparr>
           in if rlRelocated r = [] then ((topologyRecovery, recoveryResolved, successorInstance), w)
              else if rlErr r \<noteq> None \<or> rlErrs r \<noteq> []
              then ((topologyRecovery, recoveryResolved, successorInstance), w)
              else ((topologyRecovery, True, Some (rlOther r)), w)))"

text \<open>Plan B, the regroup: it may name a successor, it never sets \<open>recoveryResolved\<close>.\<close>

definition regroupReplicasOfIntermediateMaster ::
  "Env \<Rightarrow> InstanceKey \<Rightarrow> IMState \<Rightarrow> World \<Rightarrow> IMState \<times> World" where
  "regroupReplicasOfIntermediateMaster env failedInstanceKey st w =
     (case st of (topologyRecovery, recoveryResolved, successorInstance) \<Rightarrow>
      let (r, w) = callRegroup env (RegroupReplicas failedInstanceKey) w;
          topologyRecovery = AddError topologyRecovery (rgErr r)
      in case rgPromoted r of
           None \<Rightarrow> ((topologyRecovery, recoveryResolved, successorInstance), w)
         | Some regroupPromotedReplica \<Rightarrow>
             (let topologyRecovery = topologyRecovery\<lparr>ParticipatingInstanceKeys :=
                    AddKey (ParticipatingInstanceKeys topologyRecovery) (Key regroupPromotedReplica)\<rparr>
              in if rgLost r = [] \<and> rgErr r = None
                 then ((topologyRecovery, recoveryResolved, Some regroupPromotedReplica), w)
                 else ((topologyRecovery, recoveryResolved, successorInstance), w)))"

text \<open>Plan D, relocating up below the master of the failed instance.\<close>

definition relocateReplicasUp ::
  "Env \<Rightarrow> InstanceKey \<Rightarrow> InstanceKey \<Rightarrow> IMState \<Rightarrow> World \<Rightarrow> IMState \<times> World" where
  "relocateReplicasUp env failedInstanceKey masterKey st w =
     (case st of (topologyRecovery, recoveryResolved, successorInstance) \<Rightarrow>
      let (r, w) = callRelocate env (RelocateReplicas failedInstanceKey masterKey) w;
          topologyRecovery = AddErrors topologyRecovery (rlErrs r);
          topologyRecovery = topologyRecovery\<lparr>ParticipatingInstanceKeys :=
            AddKey (ParticipatingInstanceKeys topologyRecovery) masterKey\<rparr>
      in if rlRelocated r \<noteq> []
         then ((topologyRecovery, True,
                (case successorInstance of None \<Rightarrow> Some (rlOther r) | Some s \<Rightarrow> Some s)), w)
         else ((AddError topologyRecovery (Some (ErrFailedToMatchUpAnyReplica failedInstanceKey)),
                recoveryResolved, successorInstance), w))"

text \<open>
  \<open>RecoverDeadIntermediateMaster\<close>. The error variables assigned in plans A to D are declared
  in inner scopes; the error returned after the instance was read is the outer one, \<open>nil\<close>.
\<close>

definition RecoverDeadIntermediateMaster ::
  "Config \<Rightarrow> Env \<Rightarrow> TopologyRecovery \<Rightarrow> bool \<Rightarrow> World
     \<Rightarrow> (Instance option \<times> error option) \<times> TopologyRecovery \<times> World" where
  "RecoverDeadIntermediateMaster cfg env topologyRecovery skipProcesses w =
     (let topologyRecovery = topologyRecovery\<lparr>Type := IntermediateMasterRecovery\<rparr>;
          analysisEntry = AnalysisEntry topologyRecovery;
          failedInstanceKey = AnalyzedInstanceKey analysisEntry;
          (preErr, w) =
            (if \<not> skipProcesses
             then executeProcesses env (PreFailoverProcesses cfg) ''PreFailoverProcesses''
                    topologyRecovery True w
             else (None, w))
      in case preErr of
           Some err \<Rightarrow> ((None, Some err), AddError topologyRecovery (Some err), w)
         | None \<Rightarrow>
      (case callInst env (ReadInstance failedInstanceKey) w of
         (Failed x err, w) \<Rightarrow> ((None, Some err), AddError topologyRecovery (Some err), w)
       | (Ok intermediateMasterInstance, w) \<Rightarrow>
      (let candidateSiblingOfIntermediateMaster =
             candidateSibling env (trace w) intermediateMasterInstance;
           w = emit (GetCandidateSiblingOfIntermediateMaster (Key intermediateMasterInstance)) w;
           st = (topologyRecovery, False, None);
           (st, w) =
             (case candidateSiblingOfIntermediateMaster of
                Some c \<Rightarrow>
                  if DataCenter c = DataCenter intermediateMasterInstance
                  then relocateReplicasToCandidateSibling env failedInstanceKey
                         candidateSiblingOfIntermediateMaster st w
                  else (st, w)
              | None \<Rightarrow> (st, w));
           (st, w) =
             (if \<not> fst (snd st)
              then (let (st, w) = regroupReplicasOfIntermediateMaster env failedInstanceKey st w
                    in case candidateSiblingOfIntermediateMaster of
                         Some c \<Rightarrow>
                           if DataCenter c \<noteq> DataCenter intermediateMasterInstance
                           then relocateReplicasToCandidateSibling env failedInstanceKey
                                  candidateSiblingOfIntermediateMaster st w
                           else (st, w)
                       | None \<Rightarrow> (st, w))
              else (st, w));
           (st, w) =
             (if \<not> fst (snd st)
              then relocateReplicasUp env failedInstanceKey
                     (AnalyzedInstanceMasterKey analysisEntry) st w
              else (st, w));
           (topologyRecovery, recoveryResolved, successorInstance) = st;
           successorInstance = (if \<not> recoveryResolved then None else successorInstance);
           (topologyRecovery, w) = resolveRecovery topologyRecovery successorInstance w
       in ((successorInstance, None), topologyRecovery, w))))"

definition checkAndRecoverDeadIntermediateMaster ::
  "Config \<Rightarrow> Env \<Rightarrow> ReplicationAnalysis \<Rightarrow> InstanceKey option \<Rightarrow> bool \<Rightarrow> bool \<Rightarrow> World
     \<Rightarrow> (bool \<times> TopologyRecovery option \<times> error option) \<times> World" where
  "checkAndRecoverDeadIntermediateMaster cfg env analysisEntry candidateInstanceKey
       forceInstanceRecovery skipProcesses w =
     (if \<not> (forceInstanceRecovery
              \<or> HasAutomatedIntermediateMasterRecovery (ClusterDetails analysisEntry))
      then ((False, None, None), w)
      else
      case AttemptRecoveryRegistration cfg env analysisEntry (\<not> forceInstanceRecovery)
             (\<not> forceInstanceRecovery) w of
        ((None, err), w) \<Rightarrow> ((False, None, err), w)
      | ((Some topologyRecovery, err), w) \<Rightarrow>
      (let w = emit (CounterInc ''recover.dead_intermediate_master.start'') w;
           ((promotedReplica, err), topologyRecovery, w) =
             RecoverDeadIntermediateMaster cfg env topologyRecovery skipProcesses w
       in case promotedReplica of
            Some promoted \<Rightarrow>
              (let w = emit (CounterInc ''recover.dead_intermediate_master.success'') w
               in if \<not> skipProcesses
                  then (let topologyRecovery = topologyRecovery\<lparr>SuccessorKey := Some (Key promoted),
                                                  SuccessorAlias := InstanceAlias promoted\<rparr>;
                            w = snd (executeProcesses env (PostIntermediateMasterFailoverProcesses cfg)
                                       ''PostIntermediateMasterFailoverProcesses'' topologyRecovery
                                       False w)
                        in ((True, Some topologyRecovery, err), w))
                  else ((True, Some topologyRecovery, err), w))
          | None \<Rightarrow>
              ((True, Some topologyRecovery, err),
               emit (CounterInc ''recover.dead_intermediate_master.fail'') w)))"

section \<open>Dead co-master recovery\<close>

text \<open>
  \<open>RecoverDeadCoMaster\<close>. When waiting for the SQL thread fails, the function returns at once
  with the promoted replica and that error; everything after the wait is skipped.
\<close>

definition RecoverDeadCoMaster ::
  "Config \<Rightarrow> Env \<Rightarrow> TopologyRecovery \<Rightarrow> bool \<Rightarrow> World
     \<Rightarrow> (Instance option \<times> Instance list \<times> error option) \<times> TopologyRecovery \<times> World" where
  "RecoverDeadCoMaster cfg env topologyRecovery skipProcesses w =
     (let topologyRecovery = topologyRecovery\<lparr>Type := CoMasterRecovery\<rparr>;
          analysisEntry = AnalysisEntry topologyRecovery;
          failedInstanceKey = AnalyzedInstanceKey analysisEntry;
          otherCoMasterKey = AnalyzedInstanceMasterKey analysisEntry;
          (otherCoMaster, found) = readInstance env (trace w) otherCoMasterKey;
          w = emit (ReadInstance otherCoMasterKey) w
      in case (if found then otherCoMaster else None) of
           None \<Rightarrow>
             ((None, [], Some (ErrCouldNotReadCoMaster otherCoMasterKey failedInstanceKey)),
              AddError topologyRecovery
                (Some (ErrCouldNotReadCoMaster otherCoMasterKey failedInstanceKey)), w)
         | Some otherCoMaster \<Rightarrow>
      (let (preErr, w) =
             (if \<not> skipProcesses
              then executeProcesses env (PreFailoverProcesses cfg) ''PreFailoverProcesses''
                     topologyRecovery True w
              else (None, w))
       in case preErr of
            Some err \<Rightarrow> ((None, [], Some err), AddError topologyRecovery (Some err), w)
          | None \<Rightarrow>
      (let (r, w) =
             callRegroup env
               (if OracleGTIDImmediateTopology analysisEntry
                   \<or> MariaDBGTIDImmediateTopology analysisEntry
                then RegroupReplicasGTID failedInstanceKey
                else RegroupReplicasPseudoGTIDIncludingSubReplicasOfBinlogServers failedInstanceKey)
               w;
           topologyRecovery = topologyRecovery\<lparr>PostponedFunctions :=
             PostponedFunctions topologyRecovery @ rgPostponed r\<rparr>;
           topologyRecovery = AddError topologyRecovery (rgErr r);
           lostReplicas = rgLost r @ rgCannotReplicate r;
           mustPromoteOtherCoMaster =
             (CoMasterRecoveryMustPromoteOtherCoMaster cfg \<or> \<not> ReadOnly otherCoMaster);
           ((promotedReplica, err), topologyRecovery, w) =
             (case rgPromoted r of
                None \<Rightarrow> ((None, rgErr r), topologyRecovery, w)
              | Some promoted \<Rightarrow>
                  (let topologyRecovery = topologyRecovery\<lparr>ParticipatingInstanceKeys :=
                         AddKey (ParticipatingInstanceKeys topologyRecovery) (Key promoted)\<rparr>
                   in case replacePromotedReplicaWithCandidate env topologyRecovery
                             failedInstanceKey promoted
                             (if mustPromoteOtherCoMaster then Some otherCoMasterKey else None) w of
                        ((promotedReplica, err), topologyRecovery, w) \<Rightarrow>
                          ((promotedReplica, err), AddError topologyRecovery err, w)));
           (promotedReplica, topologyRecovery) =
             (case promotedReplica of
                None \<Rightarrow> (None, topologyRecovery)
              | Some promoted \<Rightarrow>
                  if mustPromoteOtherCoMaster \<and> Key promoted \<noteq> otherCoMasterKey
                  then (None, AddError topologyRecovery
                                (Some (ErrCouldNotPromoteOtherCoMaster otherCoMasterKey (Key promoted))))
                  else (Some promoted, topologyRecovery));
           (waitErr, w) =
             (case promotedReplica of
                None \<Rightarrow> (None, w)
              | Some promoted \<Rightarrow>
                  if DelayMasterPromotionIfSQLThreadNotUpToDate cfg
                  then (case callInst env (WaitForSQLThreadUpToDate (Key promoted)) w of
                          (Failed x e, w) \<Rightarrow> (Some e, w)
                        | (Ok x, w) \<Rightarrow> (None, w))
                  else (None, w))
       in case waitErr of
            Some e \<Rightarrow> ((promotedReplica, lostReplicas, Some e), topologyRecovery, w)
          | None \<Rightarrow>
      (let topologyRecovery =
             (case promotedReplica of
                None \<Rightarrow> topologyRecovery
              | Some promoted \<Rightarrow> topologyRecovery\<lparr>ParticipatingInstanceKeys :=
                  AddKey (ParticipatingInstanceKeys topologyRecovery) (Key promoted)\<rparr>);
           (err, topologyRecovery, w) =
             (case promotedReplica of
                None \<Rightarrow> (err, topologyRecovery, w)
              | Some promoted \<Rightarrow>
                  if Key promoted \<noteq> otherCoMasterKey
                  then (case callInst env (DetachReplicaMasterHost (Key promoted)) w of
                          (Failed x e, w) \<Rightarrow> (Some e, AddError topologyRecovery (Some e), w)
                        | (Ok x, w) \<Rightarrow> (None, topologyRecovery, w))
                  else (err, topologyRecovery, w));
           topologyRecovery =
             (if promotedReplica \<noteq> None \<and> lostReplicas \<noteq> []
                 \<and> DetachLostReplicasAfterMasterFailover cfg
              then AddPostponedFunction topologyRecovery
                     (DetachLostCoMasterReplicas (map Key lostReplicas))
              else topologyRecovery);
           w = beginDowntimeOfLost failedInstanceKey lostReplicas w
       in ((promotedReplica, lostReplicas, err), topologyRecovery, w)))))"

definition checkAndRecoverDeadCoMaster ::
  "Config \<Rightarrow> Env \<Rightarrow> ReplicationAnalysis \<Rightarrow> InstanceKey option \<Rightarrow> bool \<Rightarrow> bool \<Rightarrow> World
     \<Rightarrow> (bool \<times> TopologyRecovery option \<times> error option) \<times> World" where
  "checkAndRecoverDeadCoMaster cfg env analysisEntry candidateInstanceKey forceInstanceRecovery
       skipProcesses w =
     (if \<not> (forceInstanceRecovery \<or> HasAutomatedMasterRecovery (ClusterDetails analysisEntry))
      then ((False, None, None), w)
      else
      case AttemptRecoveryRegistration cfg env analysisEntry (\<not> forceInstanceRecovery)
             (\<not> forceInstanceRecovery) w of
        ((None, err), w) \<Rightarrow> ((False, None, err), w)
      | ((Some topologyRecovery, err), w) \<Rightarrow>
      (let w = emit (CounterInc ''recover.dead_co_master.start'') w;
           ((promotedReplica, lostReplicas, err), topologyRecovery, w) =
             RecoverDeadCoMaster cfg env topologyRecovery skipProcesses w;
           (topologyRecovery, w) = resolveRecovery topologyRecovery promotedReplica w;
           topologyRecovery = topologyRecovery\<lparr>LostReplicas :=
             AddInstances (LostReplicas topologyRecovery) lostReplicas\<rparr>
       in case promotedReplica of
            None \<Rightarrow> ((True, Some topologyRecovery, err),
                     emit (CounterInc ''recover.dead_co_master.fail'') w)
          | Some promoted \<Rightarrow>
              if FailMasterPromotionIfSQLThreadNotUpToDate cfg \<and> \<not> SQLThreadUpToDate promoted
              then ((False, None, Some (ErrCoMasterSQLThreadNotUpToDate (Key promoted))), w)
              else
              (let w = emit (CounterInc ''recover.dead_co_master.success'') w;
                   w = (if ApplyMySQLPromotionAfterMasterFailover cfg
                        then emit (SetReadOnly (Key promoted) False) w else w)
               in if \<not> skipProcesses
                  then (let topologyRecovery = topologyRecovery\<lparr>SuccessorKey := Some (Key promoted),
                                                  SuccessorAlias := InstanceAlias promoted\<rparr>;
                            w = snd (executeProcesses env (PostMasterFailoverProcesses cfg)
                                       ''PostMasterFailoverProcesses'' topologyRecovery False w)
                        in ((True, Some topologyRecovery, err), w))
                  else ((True, Some topologyRecovery, err), w))))"

section \<open>The dispatcher\<close>

text \<open>Analysis codes are constants of package \<open>inst\<close>; each is the string of its name.\<close>

definition DeadMaster :: AnalysisCode where "DeadMaster = ''DeadMaster''"
definition DeadMasterAndSlaves :: AnalysisCode where "DeadMasterAndSlaves = ''DeadMasterAndSlaves''"
definition DeadMasterAndSomeSlaves :: AnalysisCode where
  "DeadMasterAndSomeSlaves = ''DeadMasterAndSomeSlaves''"
definition UnreachableMaster :: AnalysisCode where "UnreachableMaster = ''UnreachableMaster''"
definition UnreachableMasterWithLaggingReplicas :: AnalysisCode where
  "UnreachableMasterWithLaggingReplicas = ''UnreachableMasterWithLaggingReplicas''"
definition AllMasterSlavesNotReplicating :: AnalysisCode where
  "AllMasterSlavesNotReplicating = ''AllMasterSlavesNotReplicating''"
definition AllMasterSlavesNotReplicatingOrDead :: AnalysisCode where
  "AllMasterSlavesNotReplicatingOrDead = ''AllMasterSlavesNotReplicatingOrDead''"
definition DeadCoMaster :: AnalysisCode where "DeadCoMaster = ''DeadCoMaster''"
definition DeadCoMasterAndSomeSlaves :: AnalysisCode where
  "DeadCoMasterAndSomeSlaves = ''DeadCoMasterAndSomeSlaves''"
definition DeadIntermediateMaster :: AnalysisCode where
  "DeadIntermediateMaster = ''DeadIntermediateMaster''"
definition DeadIntermediateMasterWithSingleSlaveFailingToConnect :: AnalysisCode where
  "DeadIntermediateMasterWithSingleSlaveFailingToConnect =
     ''DeadIntermediateMasterWithSingleSlaveFailingToConnect''"
definition DeadIntermediateMasterAndSomeSlaves :: AnalysisCode where
  "DeadIntermediateMasterAndSomeSlaves = ''DeadIntermediateMasterAndSomeSlaves''"
definition DeadIntermediateMasterAndSlaves :: AnalysisCode where
  "DeadIntermediateMasterAndSlaves = ''DeadIntermediateMasterAndSlaves''"
definition AllIntermediateMasterSlavesFailingToConnectOrDead :: AnalysisCode where
  "AllIntermediateMasterSlavesFailingToConnectOrDead =
     ''AllIntermediateMasterSlavesFailingToConnectOrDead''"

datatype Executor =
  ExecDeadMaster | ExecDeadIntermediateMaster | ExecDeadCoMaster | ExecGenericProblem

definition getCheckAndRecoverFunction ::
  "Env \<Rightarrow> AnalysisCode \<Rightarrow> InstanceKey \<Rightarrow> Executor option \<times> bool" where
  "getCheckAndRecoverFunction env analysisCode analyzedInstanceKey =
     (if analysisCode = DeadMaster \<or> analysisCode = DeadMasterAndSomeSlaves
      then (if isInEmergencyOperationGracefulPeriod env analyzedInstanceKey
            then (Some ExecGenericProblem, False)
            else (Some ExecDeadMaster, True))
      else if analysisCode = DeadIntermediateMaster then (Some ExecDeadIntermediateMaster, True)
      else if analysisCode = DeadIntermediateMasterAndSomeSlaves
      then (Some ExecDeadIntermediateMaster, True)
      else if analysisCode = DeadIntermediateMasterWithSingleSlaveFailingToConnect
      then (Some ExecDeadIntermediateMaster, True)
      else if analysisCode = AllIntermediateMasterSlavesFailingToConnectOrDead
      then (Some ExecDeadIntermediateMaster, True)
      else if analysisCode = DeadIntermediateMasterAndSlaves then (Some ExecGenericProblem, False)
      else if analysisCode = DeadCoMaster then (Some ExecDeadCoMaster, True)
      else if analysisCode = DeadCoMasterAndSomeSlaves then (Some ExecDeadCoMaster, True)
      else if analysisCode = DeadMasterAndSlaves then (Some ExecGenericProblem, False)
      else if analysisCode = UnreachableMaster then (Some ExecGenericProblem, False)
      else if analysisCode = UnreachableMasterWithLaggingReplicas
      then (Some ExecGenericProblem, False)
      else if analysisCode = AllMasterSlavesNotReplicating then (Some ExecGenericProblem, False)
      else if analysisCode = AllMasterSlavesNotReplicatingOrDead
      then (Some ExecGenericProblem, False)
      else (None, False))"

definition checkAndRecoverGenericProblem ::
  "World \<Rightarrow> (bool \<times> TopologyRecovery option \<times> error option) \<times> World" where
  "checkAndRecoverGenericProblem w = ((False, None, None), w)"

definition runCheckAndRecoverFunction ::
  "Executor \<Rightarrow> Config \<Rightarrow> Env \<Rightarrow> ReplicationAnalysis \<Rightarrow> InstanceKey option \<Rightarrow> bool \<Rightarrow> bool
     \<Rightarrow> World \<Rightarrow> (bool \<times> TopologyRecovery option \<times> error option) \<times> World" where
  "runCheckAndRecoverFunction f cfg env analysisEntry candidateInstanceKey forceInstanceRecovery
       skipProcesses w =
     (case f of
        ExecDeadMaster \<Rightarrow>
          checkAndRecoverDeadMaster cfg env analysisEntry candidateInstanceKey
            forceInstanceRecovery skipProcesses w
      | ExecDeadIntermediateMaster \<Rightarrow>
          checkAndRecoverDeadIntermediateMaster cfg env analysisEntry candidateInstanceKey
            forceInstanceRecovery skipProcesses w
      | ExecDeadCoMaster \<Rightarrow>
          checkAndRecoverDeadCoMaster cfg env analysisEntry candidateInstanceKey
            forceInstanceRecovery skipProcesses w
      | ExecGenericProblem \<Rightarrow> checkAndRecoverGenericProblem w)"

definition checkAndExecuteFailureDetectionProcesses ::
  "Config \<Rightarrow> Env \<Rightarrow> ReplicationAnalysis \<Rightarrow> bool \<Rightarrow> World
     \<Rightarrow> (bool \<times> bool \<times> error option) \<times> World" where
  "checkAndExecuteFailureDetectionProcesses cfg env analysisEntry skipProcesses w =
     (let c = AttemptFailureDetectionRegistration (AnalyzedInstanceKey analysisEntry);
          (ok, x) = boolCall env (trace w) c;
          w = emit c w
      in if \<not> ok then ((False, False, None), w)
         else if skipProcesses then ((True, False, None), w)
         else (let (err, w) =
                     executeProcesses env (OnFailureDetectionProcesses cfg)
                       ''OnFailureDetectionProcesses''
                       (NewTopologyRecovery (PrettyUniqueToken env (trace w)) analysisEntry) True w
               in ((True, True, err), w)))"

text \<open>
  \<open>executeCheckAndRecoverFunction\<close>. The pending recoveries counter and the emergent
  operations, which are started in goroutines and only feed the next analysis, are not
  modelled. Waiting for the postponed functions is the call \<open>WaitPostponedFunctions\<close>.
\<close>

definition executeCheckAndRecoverFunction ::
  "Config \<Rightarrow> Env \<Rightarrow> ReplicationAnalysis \<Rightarrow> InstanceKey option \<Rightarrow> bool \<Rightarrow> bool \<Rightarrow> World
     \<Rightarrow> (bool \<times> TopologyRecovery option \<times> error option) \<times> World" where
  "executeCheckAndRecoverFunction cfg env analysisEntry candidateInstanceKey forceInstanceRecovery
       skipProcesses w =
     (let (checkAndRecoverFunction, isActionableRecovery) =
            getCheckAndRecoverFunction env (Analysis analysisEntry) (AnalyzedInstanceKey analysisEntry);
          analysisEntry = analysisEntry\<lparr>IsActionableRecovery := isActionableRecovery\<rparr>
      in case checkAndRecoverFunction of
           None \<Rightarrow> ((False, None, None), w)
         | Some f \<Rightarrow>
      if IsRaftEnabled env \<and> \<not> IsLeader env then ((False, None, None), w)
      else
      (let ((registrationSuccess, x, err), w) =
             checkAndExecuteFailureDetectionProcesses cfg env analysisEntry skipProcesses w;
           w = (if registrationSuccess \<and> IsRaftEnabled env
                then emit (RegisterFailureDetection (AnalyzedInstanceKey analysisEntry)) w
                else w)
       in case err of
            Some e \<Rightarrow> ((False, None, Some e), w)
          | None \<Rightarrow>
      (let (recoveryDisabledGlobally, disabledErr) = boolCall env (trace w) IsRecoveryDisabled;
           w = emit IsRecoveryDisabled w
       in if disabledErr = None \<and> recoveryDisabledGlobally \<and> \<not> forceInstanceRecovery
          then ((False, None, None), w)
          else
      (let ((recoveryAttempted, topologyRecovery, err), w) =
             runCheckAndRecoverFunction f cfg env analysisEntry candidateInstanceKey
               forceInstanceRecovery skipProcesses w
       in if \<not> recoveryAttempted then ((recoveryAttempted, topologyRecovery, err), w)
          else
          case topologyRecovery of
            None \<Rightarrow> ((recoveryAttempted, None, err), w)
          | Some tr \<Rightarrow>
              (let w = (if \<not> skipProcesses
                        then (case SuccessorKey tr of
                                None \<Rightarrow>
                                  snd (executeProcesses env (PostUnsuccessfulFailoverProcesses cfg)
                                         ''PostUnsuccessfulFailoverProcesses'' tr False w)
                              | Some successorKey \<Rightarrow>
                                  snd (executeProcesses env (PostFailoverProcesses cfg)
                                         ''PostFailoverProcesses'' tr False
                                         (emit (EndDowntime successorKey) w)))
                        else w);
                   w = emit (WaitPostponedFunctions (length (PostponedFunctions tr))) w
               in ((recoveryAttempted, Some tr, err), w))))))"

definition ForceExecuteRecovery ::
  "Config \<Rightarrow> Env \<Rightarrow> ReplicationAnalysis \<Rightarrow> InstanceKey option \<Rightarrow> bool \<Rightarrow> World
     \<Rightarrow> (bool \<times> TopologyRecovery option \<times> error option) \<times> World" where
  "ForceExecuteRecovery cfg env analysisEntry candidateInstanceKey skipProcesses w =
     executeCheckAndRecoverFunction cfg env analysisEntry candidateInstanceKey True skipProcesses w"

section \<open>Graceful master takeover\<close>

definition forceAnalysisEntry ::
  "Env \<Rightarrow> string \<Rightarrow> AnalysisCode \<Rightarrow> string \<Rightarrow> InstanceKey \<Rightarrow> World
     \<Rightarrow> (ReplicationAnalysis \<times> error option) \<times> World" where
  "forceAnalysisEntry env clusterName analysisCode commandHint failedInstanceKey w =
     (let ci = ReadClusterInfo env (trace w) clusterName;
          w = emit (ReadClusterInfoCall clusterName) w
      in case ci of
           Inl err \<Rightarrow> ((zeroReplicationAnalysis, Some err), w)
         | Inr clusterInfo \<Rightarrow>
             (let (clusterAnalysisEntries, err) =
                    GetReplicationAnalysis env (trace w) (ClusterName clusterInfo);
                  w = emit (GetReplicationAnalysisCall (ClusterName clusterInfo)) w
              in case err of
                   Some e \<Rightarrow> ((zeroReplicationAnalysis, Some e), w)
                 | None \<Rightarrow>
                     (let analysisEntry =
                            foldl (\<lambda>a entry. if AnalyzedInstanceKey entry = failedInstanceKey
                                              then entry else a)
                              zeroReplicationAnalysis clusterAnalysisEntries
                      in ((analysisEntry\<lparr>Analysis := analysisCode, CommandHint := commandHint,
                             ClusterDetails := clusterInfo,
                             AnalyzedInstanceKey := failedInstanceKey\<rparr>, None), w))))"

text \<open>
  \<open>GracefulMasterTakeover\<close> from the demotion of the master on (from "Will set ... as
  read\_only" to the end of the function). \<open>ChangeMasterTo\<close> returns an instance that the
  function dereferences whatever the error.
\<close>

definition gracefulTakeoverFromDemotion ::
  "Config \<Rightarrow> Env \<Rightarrow> Instance \<Rightarrow> Instance \<Rightarrow> ReplicationAnalysis \<Rightarrow> error option \<Rightarrow> World
     \<Rightarrow> (error + TopologyRecovery \<times> BinlogCoordinates \<times> error option) \<times> World" where
  "gracefulTakeoverFromDemotion cfg env clusterMaster designatedInstance analysisEntry
       replicationCredentialsError w =
     (case callInst env (SetReadOnly (Key clusterMaster) True) w of
        (Failed x err, w) \<Rightarrow> (Inl err, w)
      | (Ok clusterMaster, w) \<Rightarrow>
      (let demotedMasterSelfBinlogCoordinates = SelfBinlogCoordinates clusterMaster in
       case callInst env (WaitForExecBinlogCoordinatesToReach (Key designatedInstance)
                            demotedMasterSelfBinlogCoordinates) w of
         (Failed x err, w) \<Rightarrow> (Inl err, w)
       | (Ok designatedInstance, w) \<Rightarrow>
      (let promotedMasterCoordinates = SelfBinlogCoordinates designatedInstance;
           ((recoveryAttempted, topologyRecovery, err), w) =
             ForceExecuteRecovery cfg env analysisEntry (Some (Key designatedInstance)) False w
       in if \<not> recoveryAttempted then (Inl ErrRecoveryNotAttempted, w)
          else
          case topologyRecovery of
            None \<Rightarrow> (Inl ErrRecoveryNoResults, w)
          | Some topologyRecovery \<Rightarrow>
          if SuccessorKey topologyRecovery = None
          then (Inl (ErrNoReplicaPromoted err), emit (SetReadOnly (Key clusterMaster) False) w)
          else
          (let gtidHint = (if MasterRecoveryTypeOf topologyRecovery = MasterRecoveryGTID
                           then GTIDHintForce else GTIDHintNeutral);
               c = ChangeMasterTo (Key clusterMaster) (Key designatedInstance)
                     promotedMasterCoordinates gtidHint;
               (clusterMaster, err) = changeMasterCall env (trace w) c;
               w = emit c w;
               (err, w) =
                 (if \<not> HasReplicationCredentials clusterMaster \<and> replicationCredentialsError = None
                  then (case callInst env (ChangeMasterCredentials (Key clusterMaster)) w of
                          (Failed x credentialsErr, w) \<Rightarrow>
                            ((case err of None \<Rightarrow> Some credentialsErr | Some e \<Rightarrow> Some e), w)
                        | (Ok x, w) \<Rightarrow> (err, w))
                  else (err, w));
               (err, w) =
                 (if AllowTLS designatedInstance
                  then (case callInst env (EnableMasterSSL (Key clusterMaster)) w of
                          (Failed x enableSSLErr, w) \<Rightarrow>
                            ((case err of None \<Rightarrow> Some enableSSLErr | Some e \<Rightarrow> Some e), w)
                        | (Ok x, w) \<Rightarrow> (err, w))
                  else (err, w));
               w = snd (executeProcesses env (PostGracefulTakeoverProcesses cfg)
                          ''PostGracefulTakeoverProcesses'' topologyRecovery False w)
           in (Inr (topologyRecovery, promotedMasterCoordinates, err), w)))))"

text \<open>
  \<open>GracefulMasterTakeover\<close> up to the demotion: the master, its direct replicas, the designated
  instance and its checks, the relocation of the siblings, the forced analysis entry and the
  pre graceful takeover hooks.
\<close>

definition GracefulMasterTakeover ::
  "Config \<Rightarrow> Env \<Rightarrow> string \<Rightarrow> InstanceKey option \<Rightarrow> World
     \<Rightarrow> (error + TopologyRecovery \<times> BinlogCoordinates \<times> error option) \<times> World" where
  "GracefulMasterTakeover cfg env clusterName designatedKey w =
     (case callList env (ReadClusterMaster clusterName) w of
        ((clusterMasters, Some err), w) \<Rightarrow> (Inl (ErrCannotDeduceClusterMaster clusterName), w)
      | ((clusterMasters, None), w) \<Rightarrow>
      if length clusterMasters \<noteq> 1 then (Inl (ErrCannotDeduceClusterMaster clusterName), w)
      else
      (let clusterMaster = hd clusterMasters in
       case callList env (ReadReplicaInstances (Key clusterMaster)) w of
         ((clusterMasterDirectReplicas, Some err), w) \<Rightarrow> (Inl err, w)
       | ((clusterMasterDirectReplicas, None), w) \<Rightarrow>
       if clusterMasterDirectReplicas = [] then (Inl (ErrNoReplicas (Key clusterMaster)), w)
       else
       (let designatedKey =
              (case designatedKey of
                 Some k \<Rightarrow> if \<not> IsValidKey env k then None else Some k
               | None \<Rightarrow> None);
            designated =
              (case designatedKey of
                 None \<Rightarrow>
                   if length clusterMasterDirectReplicas > 1
                   then Inl (ErrMoreThanOneReplica (Key clusterMaster)
                               (length clusterMasterDirectReplicas))
                   else Inr (hd clusterMasterDirectReplicas)
               | Some k \<Rightarrow>
                   (case foldl (\<lambda>d directReplica. if Key directReplica = k
                                                   then Some directReplica else d)
                          None clusterMasterDirectReplicas of
                      None \<Rightarrow> Inl (ErrDesignatedNotDirectReplica k (Key clusterMaster))
                    | Some d \<Rightarrow> Inr d))
        in case designated of
             Inl err \<Rightarrow> (Inl err, w)
           | Inr designatedInstance \<Rightarrow>
        if IsBannedFromBeingCandidateReplica env designatedInstance
        then (Inl (ErrDesignatedBanned (Key designatedInstance)), w)
        else
        case callInst env (GetInstanceMaster (Key designatedInstance)) w of
          (Failed x err, w) \<Rightarrow> (Inl err, w)
        | (Ok masterOfDesignatedInstance, w) \<Rightarrow>
        if Key masterOfDesignatedInstance \<noteq> Key clusterMaster
        then (Inl (ErrSanityDesignatedMaster (Key designatedInstance) (Key clusterMaster)), w)
        else if \<not> HasReasonableMaintenanceReplicationLag designatedInstance
        then (Inl (ErrDesignatedLagging (Key designatedInstance)), w)
        else
        (let (siblingsErr, w) =
               (if length clusterMasterDirectReplicas > 1
                then (let (r, w) = callRelocate env
                                     (RelocateReplicas (Key clusterMaster) (Key designatedInstance)) w
                      in if length (rlRelocated r) \<noteq> length clusterMasterDirectReplicas - 1
                            \<and> list_ex (\<lambda>directReplica.
                                  Key directReplica \<notin> set (map Key (rlRelocated r))
                                  \<and> Key directReplica \<noteq> Key designatedInstance
                                  \<and> \<not> InstanceIsDowntimed directReplica)
                                clusterMasterDirectReplicas
                         then (Some (ErrCannotTakeOverSiblings (Key designatedInstance) (rlErr r)), w)
                         else (None, w))
                else (None, w))
         in case siblingsErr of
              Some err \<Rightarrow> (Inl err, w)
            | None \<Rightarrow>
         (let c = ReadReplicationCredentials (Key designatedInstance);
              replicationCredentialsError = snd (boolCall env (trace w) c);
              w = emit c w
          in case forceAnalysisEntry env clusterName DeadMaster GracefulMasterTakeoverCommandHint
                    (Key clusterMaster) w of
               ((analysisEntry, Some err), w) \<Rightarrow> (Inl err, w)
             | ((analysisEntry, None), w) \<Rightarrow>
          (let preGracefulTakeoverTopologyRecovery =
                 zeroTopologyRecovery\<lparr>AnalysisEntry := analysisEntry\<rparr>
           in case executeProcesses env (PreGracefulTakeoverProcesses cfg)
                     ''PreGracefulTakeoverProcesses'' preGracefulTakeoverTopologyRecovery True w of
                (Some err, w) \<Rightarrow> (Inl (ErrPreGracefulTakeoverProcesses err), w)
              | (None, w) \<Rightarrow>
                  gracefulTakeoverFromDemotion cfg env clusterMaster designatedInstance
                    analysisEntry replicationCredentialsError w))))))"

section \<open>Concrete inputs\<close>

definition keyOf :: "string \<Rightarrow> InstanceKey" where
  "keyOf host = \<lparr>Hostname = host, Port = 3306\<rparr>"

definition zeroCoordinates :: BinlogCoordinates where
  "zeroCoordinates = \<lparr>LogFile = [], LogPos = 0\<rparr>"

definition instanceIn :: "string \<Rightarrow> string \<Rightarrow> string \<Rightarrow> Instance" where
  "instanceIn host master dc = \<lparr>Key = keyOf host, MasterKey = keyOf master, InstanceAlias = host,
     ClusterNameOf = ''c1'', DataCenter = dc, Region = ''r1'', PhysicalEnvironment = ''prod'',
     InstancePromotionRule = NeutralPromoteRule, ReadOnly = True, InstanceIsDowntimed = False,
     AllowTLS = False, HasReplicationCredentials = True, SelfBinlogCoordinates = zeroCoordinates,
     ExecBinlogCoordinates = zeroCoordinates, SQLThreadUpToDate = True,
     HasReasonableMaintenanceReplicationLag = True\<rparr>"

definition exampleInstance :: Instance where
  "exampleInstance = instanceIn ''r1'' ''m1'' ''dc1''"

definition exampleEnv :: Env where
  "exampleEnv = \<lparr>ThisHostname = ''orc1'',
     ToCommaDelimitedList = (\<lambda>ks. concat (map Hostname ks)),
     PrettyUniqueToken = (\<lambda>t. ''uid-1''),
     runCommand = (\<lambda>t c. None),
     instCall = (\<lambda>t c. Failed None (ExternalError ''unreachable'')),
     listCall = (\<lambda>t c. ([], None)),
     regroupCall = (\<lambda>t c. \<lparr>rgLost = [], rgCannotReplicate = [], rgPromoted = None, rgErr = None,
                              rgPostponed = [], rgIdealQueries = []\<rparr>),
     relocateCall = (\<lambda>t c. \<lparr>rlRelocated = [], rlOther = exampleInstance, rlErr = None, rlErrs = []\<rparr>),
     suggestCall = (\<lambda>t c. NoActionRequired),
     readInstance = (\<lambda>t k. (None, False)),
     candidateSibling = (\<lambda>t i. None),
     boolCall = (\<lambda>t c. (False, None)),
     IsRaftEnabled = False,
     IsLeader = False,
     isInEmergencyOperationGracefulPeriod = (\<lambda>k. False),
     IsBannedFromBeingCandidateReplica = (\<lambda>i. False),
     IsValidKey = (\<lambda>k. True),
     ReadClusterInfo = (\<lambda>t c. Inl (ExternalError ''no such cluster'')),
     GetReplicationAnalysis = (\<lambda>t c. ([], None)),
     changeMasterCall = (\<lambda>t c. (exampleInstance, None))\<rparr>"

definition noSuccessorRecovery :: TopologyRecovery where
  "noSuccessorRecovery = NewTopologyRecovery ''uid-1'' zeroReplicationAnalysis"

definition defaultConfig :: Config where
  "defaultConfig = \<lparr>PreFailoverProcesses = [], PostFailoverProcesses = [],
     PostUnsuccessfulFailoverProcesses = [], PostMasterFailoverProcesses = [],
     PostIntermediateMasterFailoverProcesses = [], OnFailureDetectionProcesses = [],
     PreGracefulTakeoverProcesses = [], PostGracefulTakeoverProcesses = [],
     PreventCrossDataCenterMasterFailover = False, PreventCrossRegionMasterFailover = False,
     FailMasterPromotionIfSQLThreadNotUpToDate = False,
     DelayMasterPromotionIfSQLThreadNotUpToDate = False,
     ApplyMySQLPromotionAfterMasterFailover = False,
     MasterFailoverDetachReplicaMasterHost = False,
     DetachLostReplicasAfterMasterFailover = False,
     CoMasterRecoveryMustPromoteOtherCoMaster = False, RecoveryCooldownSeconds = 3600\<rparr>"

definition emptyWorld :: World where
  "emptyWorld = \<lparr>trace = [], recoveries = [], now = 1000\<rparr>"

text \<open>
  A master \<open>m1\<close> in data center \<open>dc1\<close> with automated master recovery, GTID topology; the
  regroup promotes the replica \<open>r1\<close>, which is in \<open>dc2\<close>.
\<close>

definition deadMasterEntry :: ReplicationAnalysis where
  "deadMasterEntry = zeroReplicationAnalysis\<lparr>AnalyzedInstanceKey := keyOf ''m1'',
     Analysis := ''DeadMaster'',
     ClusterDetails := emptyClusterInfo\<lparr>ClusterName := ''c1'', HasAutomatedMasterRecovery := True\<rparr>,
     AnalyzedInstanceDataCenter := ''dc1'', AnalyzedInstanceRegion := ''r1'',
     OracleGTIDImmediateTopology := True\<rparr>"

definition promotingEnv :: "Instance \<Rightarrow> Env" where
  "promotingEnv promoted = exampleEnv\<lparr>regroupCall :=
     (\<lambda>t c. \<lparr>rgLost = [], rgCannotReplicate = [], rgPromoted = Some promoted, rgErr = None,
              rgPostponed = [], rgIdealQueries = []\<rparr>)\<rparr>"

definition crossDataCenterConfig :: Config where
  "crossDataCenterConfig = defaultConfig\<lparr>PreventCrossDataCenterMasterFailover := True\<rparr>"

definition crossDataCenterEnv :: Env where
  "crossDataCenterEnv = promotingEnv (instanceIn ''r1'' ''m1'' ''dc2'')"

text \<open>
  Both SQL thread flags set; the regroup promotes \<open>r1\<close> in the data center of the failed
  master, with relay logs still unapplied.
\<close>

definition failAndDelayConfig :: Config where
  "failAndDelayConfig = defaultConfig\<lparr>FailMasterPromotionIfSQLThreadNotUpToDate := True,
     DelayMasterPromotionIfSQLThreadNotUpToDate := True\<rparr>"

definition laggingReplica :: Instance where
  "laggingReplica = (instanceIn ''r1'' ''m1'' ''dc1'')\<lparr>SQLThreadUpToDate := False\<rparr>"

definition laggingEnv :: Env where
  "laggingEnv = promotingEnv laggingReplica"

definition successorCommand :: string where
  "successorCommand = ''{successorHost}:{successorPort} {successorAlias}''"

definition promotedRecovery :: TopologyRecovery where
  "promotedRecovery = noSuccessorRecovery\<lparr>SuccessorKey := Some (keyOf ''r1''), SuccessorAlias := []\<rparr>"

text \<open>
  A dead intermediate master \<open>im1\<close> below \<open>m1\<close>, with automated recovery; one pre failover
  hook and one hook for unsuccessful failovers are configured, and every command fails.
\<close>

definition deadIntermediateMasterEntry :: ReplicationAnalysis where
  "deadIntermediateMasterEntry = zeroReplicationAnalysis\<lparr>AnalyzedInstanceKey := keyOf ''im1'',
     AnalyzedInstanceMasterKey := keyOf ''m1'',
     Analysis := ''DeadIntermediateMaster'',
     ClusterDetails := emptyClusterInfo\<lparr>ClusterName := ''c1'',
       HasAutomatedMasterRecovery := True, HasAutomatedIntermediateMasterRecovery := True\<rparr>,
     AnalyzedInstanceDataCenter := ''dc1'', AnalyzedInstanceRegion := ''r1''\<rparr>"

definition failingHookConfig :: Config where
  "failingHookConfig = defaultConfig\<lparr>
     PreFailoverProcesses := [''false''],
     PostUnsuccessfulFailoverProcesses := [''alert'']\<rparr>"

definition failingHookEnv :: Env where
  "failingHookEnv = exampleEnv\<lparr>runCommand := (\<lambda>t c. Some (ExternalError ''exit status 1'')),
     boolCall := (\<lambda>t c. (c \<noteq> IsRecoveryDisabled, None))\<rparr>"

text \<open>
  Co-masters \<open>m1\<close> and \<open>m2\<close>; \<open>m2\<close> fails, \<open>m1\<close> is read-only and need not be promoted; the
  regroup promotes the replica \<open>r1\<close> of \<open>m2\<close>; the promotion is to wait for the SQL thread. In
  \<open>waitFailsEnv\<close> every call that returns an instance fails, the wait included; in
  \<open>waitSucceedsEnv\<close> they succeed.
\<close>

definition deadCoMasterEntry :: ReplicationAnalysis where
  "deadCoMasterEntry = zeroReplicationAnalysis\<lparr>AnalyzedInstanceKey := keyOf ''m2'',
     AnalyzedInstanceMasterKey := keyOf ''m1'',
     Analysis := ''DeadCoMaster'',
     ClusterDetails := emptyClusterInfo\<lparr>ClusterName := ''c1'', HasAutomatedMasterRecovery := True\<rparr>,
     AnalyzedInstanceDataCenter := ''dc1'', AnalyzedInstanceRegion := ''r1'',
     OracleGTIDImmediateTopology := True\<rparr>"

definition delayConfig :: Config where
  "delayConfig = defaultConfig\<lparr>DelayMasterPromotionIfSQLThreadNotUpToDate := True\<rparr>"

definition waitFailsEnv :: Env where
  "waitFailsEnv = (promotingEnv (instanceIn ''r1'' ''m2'' ''dc1''))\<lparr>
     readInstance := (\<lambda>t k. (Some (instanceIn ''m1'' ''m2'' ''dc1''), True)),
     boolCall := (\<lambda>t c. (c \<noteq> IsRecoveryDisabled, None))\<rparr>"

definition waitSucceedsEnv :: Env where
  "waitSucceedsEnv = waitFailsEnv\<lparr>instCall := (\<lambda>t c. Ok (instanceIn ''r1'' ''m2'' ''dc1''))\<rparr>"

section \<open>Properties\<close>

subsection \<open>Placeholder substitution\<close>

lemma replaceFrom_absent:
  "\<not> strings_Contains s old \<Longrightarrow> replaceFrom s old new = s"
  by (induction s) auto

lemma strings_Replace_absent:
  "old \<noteq> [] \<Longrightarrow> \<not> strings_Contains s old \<Longrightarrow> strings_Replace s old new = s"
  by (simp add: strings_Replace_def replaceFrom_absent)

lemma placeholderShaped_decompose:
  assumes "placeholderShaped p"
  obtains b where "p = CHR ''{'' # b @ [CHR ''}'']" "CHR ''{'' \<notin> set b" "CHR ''}'' \<notin> set b"
proof -
  from assms obtain r where p: "p = CHR ''{'' # r" and r: "r \<noteq> []" "last r = CHR ''}''"
    "CHR ''{'' \<notin> set r" "CHR ''}'' \<notin> set (butlast r)"
    by (auto simp: placeholderShaped_def split: list.splits)
  from r have "r = butlast r @ [CHR ''}'']" by (metis append_butlast_last_id)
  moreover from r have "CHR ''{'' \<notin> set (butlast r)" by (meson in_set_butlastD)
  ultimately show ?thesis using p r(4) that by metis
qed

lemma strings_Contains_append:
  "strings_Contains b s \<Longrightarrow> strings_Contains (a @ b) s"
proof (induction a)
  case Nil
  then show ?case by simp
next
  case (Cons x a)
  then show ?case by simp
qed

lemma strings_Contains_skip:
  assumes "strings_Contains (b @ c # rest) (CHR ''{'' # s)" "CHR ''{'' \<notin> set b" "c \<noteq> CHR ''{''"
  shows "strings_Contains rest (CHR ''{'' # s)"
  using assms by (induction b) auto

lemma body_prefix_eq:
  assumes "prefix (x @ [c]) (y @ c # r)" "c \<notin> set x" "c \<notin> set y"
  shows "x = y"
  using assms
proof (induction x arbitrary: y)
  case Nil
  then show ?case by (cases y) auto
next
  case (Cons a x)
  then show ?case by (cases y) auto
qed

lemma strings_Contains_after_match:
  assumes old: "placeholderShaped old" and S: "placeholderShaped S" and ne: "old \<noteq> S"
    and c: "strings_Contains (old @ rest) S"
  shows "strings_Contains rest S"
proof -
  from old obtain b where b: "old = CHR ''{'' # b @ [CHR ''}'']" "CHR ''{'' \<notin> set b" "CHR ''}'' \<notin> set b"
    by (rule placeholderShaped_decompose)
  from S obtain bs where bs: "S = CHR ''{'' # bs @ [CHR ''}'']" "CHR ''{'' \<notin> set bs" "CHR ''}'' \<notin> set bs"
    by (rule placeholderShaped_decompose)
  from c b have "prefix S (old @ rest) \<or> strings_Contains (b @ CHR ''}'' # rest) S"
    by simp
  then show ?thesis
  proof
    assume "prefix S (old @ rest)"
    with b bs have "prefix (bs @ [CHR ''}'']) (b @ CHR ''}'' # rest)" by simp
    with b bs have "bs = b" by (metis body_prefix_eq)
    with b bs ne show ?thesis by simp
  next
    assume "strings_Contains (b @ CHR ''}'' # rest) S"
    with bs b show ?thesis
      using strings_Contains_skip[of b "CHR ''}''" rest "bs @ [CHR ''}'']"] by simp
  qed
qed

lemma replaceFrom_no_brace:
  "CHR ''{'' \<notin> set xs \<Longrightarrow> replaceFrom (xs @ rest) (CHR ''{'' # o') new = xs @ replaceFrom rest (CHR ''{'' # o') new"
  by (induction xs) auto

lemma replaceFrom_keeps:
  assumes old: "placeholderShaped old" and S: "placeholderShaped S" and ne: "old \<noteq> S"
  shows "strings_Contains s S \<Longrightarrow> strings_Contains (replaceFrom s old new) S"
proof (induction s rule: length_induct)
  case (1 s)
  from old obtain b where b: "old = CHR ''{'' # b @ [CHR ''}'']"
    by (rule placeholderShaped_decompose)
  from S obtain bs where bs: "S = CHR ''{'' # bs @ [CHR ''}'']" "CHR ''{'' \<notin> set bs"
    by (rule placeholderShaped_decompose)
  show ?case
  proof (cases s)
    case Nil
    with "1.prems" show ?thesis by simp
  next
    case (Cons c cs)
    show ?thesis
    proof (cases "prefix old (c # cs)")
      case True
      then obtain rest where rest: "c # cs = old @ rest" by (auto simp: prefix_def)
      then have dr: "drop (length old) (c # cs) = rest" by simp
      from "1.prems" Cons rest have "strings_Contains (old @ rest) S" by simp
      then have r: "strings_Contains rest S"
        by (rule strings_Contains_after_match[OF old S ne])
      from rest b Cons have "length rest < length s"
        by (metis length_append length_Cons less_add_same_cancel2 add.commute zero_less_Suc)
      with "1.IH" r have "strings_Contains (replaceFrom rest old new) S" by blast
      then have "strings_Contains (new @ replaceFrom rest old new) S"
        by (rule strings_Contains_append)
      moreover from True b dr have "replaceFrom (c # cs) old new = new @ replaceFrom rest old new"
        by simp
      ultimately show ?thesis using Cons by simp
    next
      case False
      then have eq: "replaceFrom (c # cs) old new = c # replaceFrom cs old new" by simp
      from "1.prems" Cons have "prefix S (c # cs) \<or> strings_Contains cs S" by simp
      then show ?thesis
      proof
        assume "strings_Contains cs S"
        with "1.IH" Cons have "strings_Contains (replaceFrom cs old new) S" by simp
        with eq Cons show ?thesis by simp
      next
        assume "prefix S (c # cs)"
        with bs obtain rest where c: "c = CHR ''{''" and cs: "cs = bs @ CHR ''}'' # rest"
          by (auto simp: prefix_def)
        have "replaceFrom cs old new = bs @ replaceFrom (CHR ''}'' # rest) old new"
          unfolding cs b using bs(2) by (rule replaceFrom_no_brace)
        also have "\<dots> = bs @ CHR ''}'' # replaceFrom rest old new"
          by (simp add: b)
        finally have "prefix S (c # replaceFrom cs old new)"
          by (simp add: bs c)
        with eq Cons show ?thesis by simp
      qed
    qed
  qed
qed

lemma strings_Replace_keeps:
  assumes "placeholderShaped old" "placeholderShaped S" "old \<noteq> S" "strings_Contains s S"
  shows "strings_Contains (strings_Replace s old new) S"
proof -
  from assms(1) have "old \<noteq> []" by (auto simp: placeholderShaped_def)
  with replaceFrom_keeps[OF assms] show ?thesis by (simp add: strings_Replace_def)
qed

lemma digit_not_brace_all: "\<forall>d \<in> set [0..<10]. char_of (48 + (d::nat)) \<noteq> CHR ''{''"
  by code_simp

lemma digit_not_brace: "d < 10 \<Longrightarrow> char_of (48 + (d::nat)) \<noteq> CHR ''{''"
  using digit_not_brace_all by simp

lemma decimal_no_brace: "CHR ''{'' \<notin> set (decimal n)"
proof (induction n rule: decimal.induct)
  case (1 n)
  show ?case
  proof (cases "n < 10")
    case True
    then show ?thesis using digit_not_brace[of n] by (simp add: decimal.simps)
  next
    case False
    have "n mod 10 < 10" by simp
    from digit_not_brace[OF this] "1.IH"[OF False] False show ?thesis
      by (subst decimal.simps) simp
  qed
qed

lemma Sprintf_d_no_brace: "CHR ''{'' \<notin> set (Sprintf_d i)"
  by (simp add: Sprintf_d_def decimal_no_brace)

lemma replaceFrom_no_brace_all:
  "CHR ''{'' \<notin> set xs \<Longrightarrow> replaceFrom xs (CHR ''{'' # o') new = xs"
  using replaceFrom_no_brace[of xs "[]" o' new] by simp

lemma strings_Replace_no_brace:
  "CHR ''{'' \<notin> set xs \<Longrightarrow>
   strings_Replace (xs @ rest) (CHR ''{'' # o') new = xs @ strings_Replace rest (CHR ''{'' # o') new"
  by (simp add: strings_Replace_def replaceFrom_no_brace)

lemma strings_Replace_no_brace_all:
  "CHR ''{'' \<notin> set xs \<Longrightarrow> strings_Replace xs (CHR ''{'' # o') new = xs"
  by (simp add: strings_Replace_def replaceFrom_no_brace_all)

lemma successorCommand_clean:
  "list_all (\<lambda>p. p \<noteq> [] \<and> \<not> strings_Contains successorCommand p) unconditionalPlaceholders"
  by code_simp

lemma successorCommand_head:
  "p \<in> set unconditionalPlaceholders \<Longrightarrow> strings_Replace successorCommand p new = successorCommand"
  using successorCommand_clean by (intro strings_Replace_absent) (auto simp: list_all_iff)

lemma successor_stage:
  assumes "CHR ''{'' \<notin> set H" "CHR ''{'' \<notin> set P"
  shows "strings_Replace (strings_Replace (strings_Replace successorCommand
            ''{successorHost}'' H) ''{successorPort}'' P) ''{successorAlias}'' A
         = H @ '':'' @ P @ '' '' @ A"
proof -
  have 1: "strings_Replace successorCommand ''{successorHost}'' H
             = H @ '':{successorPort} {successorAlias}''"
    by (simp add: strings_Replace_def successorCommand_def)
  have 2: "strings_Replace (H @ '':{successorPort} {successorAlias}'') ''{successorPort}'' P
             = H @ '':'' @ P @ '' {successorAlias}''"
    using assms(1) by (simp add: strings_Replace_no_brace) (simp add: strings_Replace_def)
  have "CHR ''{'' \<notin> set (H @ '':'' @ P @ '' '')" using assms by simp
  from strings_Replace_no_brace[OF this, of "''{successorAlias}''"]
  have 3: "strings_Replace (H @ '':'' @ P @ '' {successorAlias}'') ''{successorAlias}'' A
             = H @ '':'' @ P @ '' '' @ A"
    by (simp add: strings_Replace_def)
  from 1 2 3 show ?thesis by simp
qed

lemma replaceCommandPlaceholders_table:
  "replaceCommandPlaceholders env command tr = substituteAll (placeholderTable env tr) command"
proof (cases "SuccessorKey tr")
  case None
  show ?thesis
    unfolding replaceCommandPlaceholders_def placeholderTable_def substituteAll_def Let_def
    by (simp only: None option.case foldl.simps append.simps prod.case)
next
  case (Some k)
  show ?thesis
    unfolding replaceCommandPlaceholders_def placeholderTable_def substituteAll_def Let_def
    by (simp only: Some option.case foldl.simps append.simps prod.case)
qed

lemma replaceCommandPlaceholders_without_other_placeholders:
  assumes "SuccessorKey topologyRecovery = None"
    and "list_all (\<lambda>p. \<not> strings_Contains command p) unconditionalPlaceholders"
  shows "replaceCommandPlaceholders env command topologyRecovery = command"
proof -
  have a: "\<And>p new. p \<in> set unconditionalPlaceholders \<Longrightarrow> strings_Replace command p new = command"
    using assms(2)
    by (auto simp: list_all_iff unconditionalPlaceholders_def intro!: strings_Replace_absent)
  show ?thesis
    unfolding replaceCommandPlaceholders_def Let_def
    apply (simp only: assms(1) option.case)
    apply (simp only: a unconditionalPlaceholders_def list.set insert_iff simp_thms)
    done
qed

lemma unconditionalPlaceholders_shaped:
  "p \<in> set unconditionalPlaceholders \<Longrightarrow> placeholderShaped p"
  by (auto simp: unconditionalPlaceholders_def placeholderShaped_def)

lemma successorPlaceholders_shaped:
  "S \<in> set successorPlaceholders \<Longrightarrow> placeholderShaped S"
  by (auto simp: successorPlaceholders_def placeholderShaped_def)

lemma successorPlaceholders_other:
  "S \<in> set successorPlaceholders \<Longrightarrow> p \<in> set unconditionalPlaceholders \<Longrightarrow> p \<noteq> S"
  by (auto simp: successorPlaceholders_def unconditionalPlaceholders_def)

lemma replaceCommandPlaceholders_nil_successor_keeps:
  assumes nil: "SuccessorKey tr = None"
    and S: "S \<in> set successorPlaceholders"
    and c: "strings_Contains command S"
  shows "strings_Contains (replaceCommandPlaceholders env command tr) S"
proof -
  have k: "\<And>s p new. p \<in> set unconditionalPlaceholders \<Longrightarrow> strings_Contains s S
             \<Longrightarrow> strings_Contains (strings_Replace s p new) S"
    using S
    by (intro strings_Replace_keeps unconditionalPlaceholders_shaped successorPlaceholders_shaped
        successorPlaceholders_other)
  have m: "list_all (\<lambda>p. p \<in> set unconditionalPlaceholders) unconditionalPlaceholders"
    by (simp add: list_all_iff)
  show ?thesis
    unfolding replaceCommandPlaceholders_def Let_def
    apply (simp only: nil option.case)
    apply (intro k)
    using m c apply (simp_all only: unconditionalPlaceholders_def list.set insert_iff simp_thms)
    done
qed

lemma replaceCommandPlaceholders_successor_example:
  assumes some: "SuccessorKey tr = Some k"
    and h: "CHR ''{'' \<notin> set (Hostname k)"
    and al: "CHR ''{'' \<notin> set (SuccessorAlias tr)"
  shows "replaceCommandPlaceholders env successorCommand tr
           = Hostname k @ '':'' @ Sprintf_d (Port k) @ '' '' @ SuccessorAlias tr"
proof -
  have nb: "CHR ''{'' \<notin> set (Hostname k @ '':'' @ Sprintf_d (Port k) @ '' '' @ SuccessorAlias tr)"
    using h al Sprintf_d_no_brace[of "Port k"] by simp
  show ?thesis
    unfolding replaceCommandPlaceholders_def Let_def
    apply (simp only: some option.case)
    apply (simp only: successorCommand_head unconditionalPlaceholders_def list.set insert_iff simp_thms)
    apply (simp only: successor_stage[OF h Sprintf_d_no_brace])
    apply (simp only: strings_Replace_no_brace_all[OF nb])
    done
qed

text \<open>
  C5 as stated: with no successor, \<open>{successorHost}\<close> would be replaced by the empty string.
  The source substitutes the three successor placeholders only inside
  \<open>if topologyRecovery.SuccessorKey != nil\<close>; without a successor the command keeps them.
\<close>

theorem replaceCommandPlaceholders_nil_successor_counterexample:
  "replaceCommandPlaceholders exampleEnv ''{successorHost}'' noSuccessorRecovery \<noteq> []
   \<and> replaceCommandPlaceholders exampleEnv
        ''notify {successorHost}:{successorPort} {successorAlias}'' noSuccessorRecovery
      = ''notify {successorHost}:{successorPort} {successorAlias}''"
  by code_simp

text \<open>
  C5, amended. For every command and every recovery: the substitution is the table of the
  hook contract applied from left to right, and the successor's placeholders are in the table
  only when there is a successor. With no successor, each of \<open>{successorHost}\<close>,
  \<open>{successorPort}\<close> and \<open>{successorAlias}\<close> that occurs in the command still occurs in the
  result, and a command with none of the other placeholders is returned as it is. With a
  successor whose host name and alias hold no brace, the command
  \<open>{successorHost}:{successorPort} {successorAlias}\<close> becomes host, colon, port, blank, alias:
  an empty alias is substituted by the empty string.
\<close>

theorem replaceCommandPlaceholders_successor_placeholders:
  "replaceCommandPlaceholders env command tr = substituteAll (placeholderTable env tr) command
   \<and> (SuccessorKey tr = None \<longrightarrow>
         (\<forall>S \<in> set successorPlaceholders.
            strings_Contains command S \<longrightarrow>
            strings_Contains (replaceCommandPlaceholders env command tr) S)
         \<and> (list_all (\<lambda>p. \<not> strings_Contains command p) unconditionalPlaceholders \<longrightarrow>
              replaceCommandPlaceholders env command tr = command))
   \<and> (\<forall>k. SuccessorKey tr = Some k \<and> CHR ''{'' \<notin> set (Hostname k)
            \<and> CHR ''{'' \<notin> set (SuccessorAlias tr) \<longrightarrow>
         replaceCommandPlaceholders env successorCommand tr
           = Hostname k @ '':'' @ Sprintf_d (Port k) @ '' '' @ SuccessorAlias tr)"
  using replaceCommandPlaceholders_table [of env command tr]
    replaceCommandPlaceholders_nil_successor_keeps [of tr _ command env]
    replaceCommandPlaceholders_without_other_placeholders [of tr command env]
    replaceCommandPlaceholders_successor_example [of tr _ env]
  by blast

lemma Sprintf_d_3306: "Sprintf_d 3306 = ''3306''"
  by code_simp

theorem replaceCommandPlaceholders_successor_placeholders_witness:
  "SuccessorKey noSuccessorRecovery = None
   \<and> ''{successorHost}'' \<in> set successorPlaceholders
   \<and> strings_Contains ''notify {successorHost} of {failedHost}'' ''{successorHost}''
   \<and> strings_Contains
        (replaceCommandPlaceholders exampleEnv ''notify {successorHost} of {failedHost}''
           noSuccessorRecovery) ''{successorHost}''
   \<and> SuccessorKey promotedRecovery = Some (keyOf ''r1'')
   \<and> CHR ''{'' \<notin> set (Hostname (keyOf ''r1''))
   \<and> CHR ''{'' \<notin> set (SuccessorAlias promotedRecovery)
   \<and> replaceCommandPlaceholders exampleEnv successorCommand promotedRecovery = ''r1:3306 ''"
proof -
  have h1: "SuccessorKey noSuccessorRecovery = None"
    by (simp add: noSuccessorRecovery_def NewTopologyRecovery_def)
  have h2: "''{successorHost}'' \<in> set successorPlaceholders"
    by (simp add: successorPlaceholders_def)
  have h3: "strings_Contains ''notify {successorHost} of {failedHost}'' ''{successorHost}''"
    by code_simp
  have h4: "SuccessorKey promotedRecovery = Some (keyOf ''r1'')"
    by (simp add: promotedRecovery_def)
  have h5: "CHR ''{'' \<notin> set (Hostname (keyOf ''r1''))"
    by (simp add: keyOf_def)
  have h6: "CHR ''{'' \<notin> set (SuccessorAlias promotedRecovery)"
    by (simp add: promotedRecovery_def)
  note t = replaceCommandPlaceholders_successor_placeholders
  from t [of exampleEnv "''notify {successorHost} of {failedHost}''" noSuccessorRecovery] h1 h2 h3
  have c1: "strings_Contains
        (replaceCommandPlaceholders exampleEnv ''notify {successorHost} of {failedHost}''
           noSuccessorRecovery) ''{successorHost}''"
    by blast
  from t [of exampleEnv successorCommand promotedRecovery] h4 h5 h6
  have "replaceCommandPlaceholders exampleEnv successorCommand promotedRecovery
          = Hostname (keyOf ''r1'') @ '':'' @ Sprintf_d (Port (keyOf ''r1'')) @ '' ''
            @ SuccessorAlias promotedRecovery"
    by blast
  then have c2: "replaceCommandPlaceholders exampleEnv successorCommand promotedRecovery = ''r1:3306 ''"
    by (simp add: keyOf_def promotedRecovery_def Sprintf_d_3306)
  from h1 h2 h3 c1 h4 h5 h6 c2 show ?thesis by blast
qed

subsection \<open>Binlog server topologies: the postponed moves\<close>

lemma addBinlogServerMoves_take:
  "PostponedFunctions (addBinlogServerMoves m i bls pr rs tr) =
     PostponedFunctions tr @
       map (\<lambda>r. MoveBinlogServer (Key r) (ExecBinlogCoordinates bls) (Key pr)) (take (m - i) rs)"
proof (induction rs arbitrary: i tr)
  case Nil
  then show ?case by simp
next
  case (Cons r rs)
  show ?case
  proof (cases "m \<le> i")
    case True
    then show ?thesis by simp
  next
    case False
    then have "m - i = Suc (m - Suc i)" by simp
    with False Cons.IH[of "Suc i"] show ?thesis
      by (simp add: AddPostponedFunction_def)
  qed
qed

lemma moveBinlogServerReplicas_postponed:
  "PostponedFunctions (fst (moveBinlogServerReplicas env bls pr tr w)) =
     PostponedFunctions tr @
       (case listCall env (trace w) (ReadBinlogServerReplicaInstances (Key bls)) of
          (rs, None) \<Rightarrow>
            map (\<lambda>r. MoveBinlogServer (Key r) (ExecBinlogCoordinates bls) (Key pr)) (take 3 rs)
        | (rs, Some e) \<Rightarrow> [])"
  by (simp add: moveBinlogServerReplicas_def callList_def addBinlogServerMoves_take
      split: prod.splits option.splits)

lemma moveBinlogServerReplicas_length:
  "length (PostponedFunctions (fst (moveBinlogServerReplicas env bls pr tr w))) \<le>
     length (PostponedFunctions tr) + 3"
  by (simp add: moveBinlogServerReplicas_postponed split: prod.splits option.splits)

lemma recoverDeadMasterInBinlogServerTopology_length:
  "length (PostponedFunctions (fst (snd (recoverDeadMasterInBinlogServerTopology env tr w)))) \<le>
     length (PostponedFunctions tr) + 3"
  using moveBinlogServerReplicas_length
  unfolding recoverDeadMasterInBinlogServerTopology_def Let_def
  by (auto split: prod.splits InstResult.splits simp: moveBinlogServerReplicas_length
      dest: arg_cong[where f=fst])

lemma recoverDeadMasterInBinlogServerTopology_cases:
  "recoverDeadMasterInBinlogServerTopology env tr w = (r, tr', w') \<Longrightarrow>
   tr' = tr \<or> (\<exists>bls pr w''. moveBinlogServerReplicas env bls pr tr w'' = (tr', w'))"
  unfolding recoverDeadMasterInBinlogServerTopology_def Let_def
  by (auto split: prod.splits InstResult.splits)

lemma recoverDeadMasterInBinlogServerTopology_enqueues:
  "fst (snd (recoverDeadMasterInBinlogServerTopology env tr w)) = tr
   \<or> (\<exists>bls pr w'. fst (snd (recoverDeadMasterInBinlogServerTopology env tr w))
                      = fst (moveBinlogServerReplicas env bls pr tr w'))"
proof -
  obtain r tr' w' where e: "recoverDeadMasterInBinlogServerTopology env tr w = (r, tr', w')"
    by (metis prod.exhaust)
  from recoverDeadMasterInBinlogServerTopology_cases [OF e] e show ?thesis
    by (metis fst_conv snd_conv)
qed

text \<open>
  C10: the binlog server replicas read below the promoted binlog server are enqueued in read
  order and only the first three of them; when the read fails nothing is enqueued. The whole
  binlog server recovery adds at most three postponed functions, and what it enqueues is
  what this loop enqueues: its record is the one it was given or the result of the loop on it.
\<close>

theorem binlog_server_moves_first_three:
  "PostponedFunctions (fst (moveBinlogServerReplicas env bls pr tr w)) =
     PostponedFunctions tr @
       (case listCall env (trace w) (ReadBinlogServerReplicaInstances (Key bls)) of
          (rs, None) \<Rightarrow>
            map (\<lambda>r. MoveBinlogServer (Key r) (ExecBinlogCoordinates bls) (Key pr)) (take 3 rs)
        | (rs, Some e) \<Rightarrow> [])
   \<and> length (PostponedFunctions (fst (snd (recoverDeadMasterInBinlogServerTopology env tr w))))
       \<le> length (PostponedFunctions tr) + 3
   \<and> (fst (snd (recoverDeadMasterInBinlogServerTopology env tr w)) = tr
       \<or> (\<exists>bls pr w'. fst (snd (recoverDeadMasterInBinlogServerTopology env tr w))
                          = fst (moveBinlogServerReplicas env bls pr tr w')))"
  using moveBinlogServerReplicas_postponed [of env bls pr tr w]
    recoverDeadMasterInBinlogServerTopology_length [of env tr w]
    recoverDeadMasterInBinlogServerTopology_enqueues [of env tr w]
  by blast

subsection \<open>Dead master recovery: resolution and the override gates\<close>

lemma SuccessorKey_AddError [simp]: "SuccessorKey (AddError tr e) = SuccessorKey tr"
  by (simp add: AddError_def split: option.splits)

lemma SuccessorKey_AddPostponedFunction [simp]:
  "SuccessorKey (AddPostponedFunction tr f) = SuccessorKey tr"
  by (simp add: AddPostponedFunction_def)

lemma SuccessorKey_addBinlogServerMoves [simp]:
  "SuccessorKey (addBinlogServerMoves m i bls pr rs tr) = SuccessorKey tr"
  by (induction rs arbitrary: i tr) auto

lemma SuccessorKey_moveBinlogServerReplicas:
  "moveBinlogServerReplicas env bls pr tr w = (tr', w') \<Longrightarrow> SuccessorKey tr' = SuccessorKey tr"
  by (auto simp add: moveBinlogServerReplicas_def split: prod.splits option.splits)

lemma SuccessorKey_recoverDeadMasterInBinlogServerTopology:
  "recoverDeadMasterInBinlogServerTopology env tr w = (r, tr', w') \<Longrightarrow> SuccessorKey tr' = SuccessorKey tr"
  unfolding recoverDeadMasterInBinlogServerTopology_def Let_def
  by (auto split: prod.splits InstResult.splits simp: SuccessorKey_moveBinlogServerReplicas)

lemma SuccessorKey_replacePromotedReplicaWithCandidate:
  "replacePromotedReplicaWithCandidate env tr d p c w = (r, tr', w') \<Longrightarrow> SuccessorKey tr' = SuccessorKey tr"
  unfolding replacePromotedReplicaWithCandidate_def Let_def
  by (auto split: prod.splits InstResult.splits Suggestion.splits if_splits)

lemma SuccessorKey_recoverDeadMaster:
  "recoverDeadMaster cfg env tr c s w = (r, tr', w') \<Longrightarrow> SuccessorKey tr' = SuccessorKey tr"
  unfolding recoverDeadMaster_def Let_def
  by (auto split: prod.splits option.splits MasterRecoveryType.splits if_splits
      dest!: SuccessorKey_replacePromotedReplicaWithCandidate
        SuccessorKey_recoverDeadMasterInBinlogServerTopology)

lemma SuccessorKey_registration:
  "AttemptRecoveryRegistration cfg env e a b w = ((Some tr0, rerr), w0) \<Longrightarrow> SuccessorKey tr0 = None"
  by (auto simp: AttemptRecoveryRegistration_def NewTopologyRecovery_def Let_def split: if_splits)


lemma trace_emit [simp]: "trace (emit c w) = trace w @ [c]"
  by (simp add: emit_def)

lemma in_trace_runProcesses:
  "c \<in> set (trace w) \<Longrightarrow> c \<in> set (trace (snd (runProcesses env d tr f cs err w)))"
  by (induction cs arbitrary: err w) (auto simp: Let_def split: option.splits)

lemma in_trace_executeProcesses:
  "c \<in> set (trace w) \<Longrightarrow> c \<in> set (trace (snd (executeProcesses env ps d tr f w)))"
  by (auto simp: executeProcesses_def Let_def intro!: in_trace_runProcesses)

lemma in_trace_applyMySQLPromotion:
  "c \<in> set (trace w) \<Longrightarrow> c \<in> set (trace (applyMySQLPromotion env pk fk w))"
  by (auto simp: applyMySQLPromotion_def callInst_def Let_def split: prod.splits InstResult.splits)

lemma trace_writeResolveRecovery [simp]: "trace (writeResolveRecovery tr w) = trace w"
  by (simp add: writeResolveRecovery_def)

lemma checkAndRecoverDeadMaster_resolution:
  assumes gate: "force \<or> HasAutomatedMasterRecovery (ClusterDetails e)"
    and reg: "AttemptRecoveryRegistration cfg env e (\<not> force) (\<not> force) w = ((Some tr0, rerr), w0)"
    and rdm: "recoverDeadMaster cfg env tr0 cand skip (emit (CounterInc ''recover.dead_master.start'') w0)
                = ((promoted, lost, err1), tr1, w1)"
    and ovr: "overrideMasterPromotion cfg env e promoted err1 w1 = ((final, err2), w2)"
  shows "\<exists>tr w'. checkAndRecoverDeadMaster cfg env e cand force skip w = ((True, Some tr, err2), w')
           \<and> SuccessorKey tr = map_option Key final
           \<and> ResolveRecovery (UID tr) (SuccessorKey tr) \<in> set (trace w')
           \<and> set (trace w2) \<subseteq> set (trace w')"
proof -
  have k0: "SuccessorKey tr1 = None"
    using SuccessorKey_recoverDeadMaster[OF rdm] SuccessorKey_registration[OF reg] by simp
  show ?thesis
  proof (cases final)
    case None
    with gate k0 show ?thesis
      by (auto simp add: checkAndRecoverDeadMaster_def reg rdm ovr resolveRecovery_def Let_def)
  next
    case (Some p)
    with gate k0 show ?thesis
      by (auto simp add: checkAndRecoverDeadMaster_def reg rdm ovr resolveRecovery_def Let_def
          AddPostponedFunction_def
          intro!: in_trace_executeProcesses in_trace_applyMySQLPromotion)
  qed
qed

lemma overrideMasterPromotion_cases:
  "overrideMasterPromotion cfg env e (Some p) err w =
     (if \<not> fst (MasterFailoverGeographicConstraintSatisfied cfg e p)
      then ((None, Some (ErrGeographicConstraint (Key p)
                           (snd (MasterFailoverGeographicConstraintSatisfied cfg e p)))), w)
      else if FailMasterPromotionIfSQLThreadNotUpToDate cfg \<and> \<not> SQLThreadUpToDate p
      then ((None, Some (ErrFailPromotionSQLThreadNotUpToDate (Key p))), w)
      else if DelayMasterPromotionIfSQLThreadNotUpToDate cfg \<and> \<not> SQLThreadUpToDate p
      then (case instCall env (trace w) (WaitForSQLThreadUpToDate (Key p)) of
              Failed x e \<Rightarrow> ((None, Some (ErrDelayPromotionWait e)),
                              emit (WaitForSQLThreadUpToDate (Key p)) w)
            | Ok x \<Rightarrow> ((Some p, err), emit (WaitForSQLThreadUpToDate (Key p)) w))
      else ((Some p, err), w))"
  by (cases "MasterFailoverGeographicConstraintSatisfied cfg e p")
    (auto simp: overrideMasterPromotion_def callInst_def split: InstResult.splits)

text \<open>
  C3: with \<open>PreventCrossDataCenterMasterFailover\<close>, once the recovery is registered and
  \<open>recoverDeadMaster\<close> has returned, the recovery is resolved, and a successor is recorded only
  when it is the key of the promoted replica and that replica is in the data center of the
  failed instance; a promoted replica in another data center is rejected with the geographic
  error and the recovery resolves with no successor.
\<close>

theorem dead_master_successor_in_failed_data_center:
  assumes prevent: "PreventCrossDataCenterMasterFailover cfg"
    and gate: "force \<or> HasAutomatedMasterRecovery (ClusterDetails e)"
    and reg: "AttemptRecoveryRegistration cfg env e (\<not> force) (\<not> force) w = ((Some tr0, rerr), w0)"
    and rdm: "recoverDeadMaster cfg env tr0 cand skip (emit (CounterInc ''recover.dead_master.start'') w0)
                = ((promoted, lost, err1), tr1, w1)"
  shows "\<exists>tr err w'. checkAndRecoverDeadMaster cfg env e cand force skip w = ((True, Some tr, err), w')
           \<and> ResolveRecovery (UID tr) (SuccessorKey tr) \<in> set (trace w')
           \<and> (\<forall>k. SuccessorKey tr = Some k \<longrightarrow>
                 (\<exists>p. promoted = Some p \<and> Key p = k
                      \<and> DataCenter p = AnalyzedInstanceDataCenter e))
           \<and> (\<forall>p. promoted = Some p \<and> DataCenter p \<noteq> AnalyzedInstanceDataCenter e \<longrightarrow>
                 SuccessorKey tr = None
                 \<and> err = Some (ErrGeographicConstraint (Key p)
                                 (snd (MasterFailoverGeographicConstraintSatisfied cfg e p))))"
proof -
  obtain final err2 w2 where
    ovr: "overrideMasterPromotion cfg env e promoted err1 w1 = ((final, err2), w2)"
    by (metis prod.exhaust)
  from checkAndRecoverDeadMaster_resolution[OF gate reg rdm ovr]
  obtain tr w' where
    res: "checkAndRecoverDeadMaster cfg env e cand force skip w = ((True, Some tr, err2), w')"
    and sk: "SuccessorKey tr = map_option Key final"
    and rr: "ResolveRecovery (UID tr) (SuccessorKey tr) \<in> set (trace w')"
    by blast
  have a: "\<forall>k. SuccessorKey tr = Some k \<longrightarrow>
             (\<exists>p. promoted = Some p \<and> Key p = k \<and> DataCenter p = AnalyzedInstanceDataCenter e)"
  proof (cases promoted)
    case None
    with ovr sk show ?thesis by (simp add: overrideMasterPromotion_def)
  next
    case (Some p)
    with ovr sk prevent show ?thesis
      by (auto simp: overrideMasterPromotion_cases MasterFailoverGeographicConstraintSatisfied_def
          split: if_splits InstResult.splits)
  qed
  have b: "\<forall>p. promoted = Some p \<and> DataCenter p \<noteq> AnalyzedInstanceDataCenter e \<longrightarrow>
             SuccessorKey tr = None
             \<and> err2 = Some (ErrGeographicConstraint (Key p)
                              (snd (MasterFailoverGeographicConstraintSatisfied cfg e p)))"
    using ovr sk prevent
    by (auto simp: overrideMasterPromotion_cases MasterFailoverGeographicConstraintSatisfied_def)
  from res rr a b show ?thesis by blast
qed

lemma crossDataCenter_registration:
  "fst (fst (AttemptRecoveryRegistration crossDataCenterConfig crossDataCenterEnv deadMasterEntry
               True True emptyWorld)) \<noteq> None"
  by code_simp

lemma crossDataCenter_promoted:
  "fst (fst (recoverDeadMaster crossDataCenterConfig crossDataCenterEnv
          (the (fst (fst (AttemptRecoveryRegistration crossDataCenterConfig crossDataCenterEnv
                            deadMasterEntry True True emptyWorld))))
          None True
          (emit (CounterInc ''recover.dead_master.start'')
             (snd (AttemptRecoveryRegistration crossDataCenterConfig crossDataCenterEnv
                     deadMasterEntry True True emptyWorld)))))
      = Some (instanceIn ''r1'' ''m1'' ''dc2'')"
  by code_simp

theorem dead_master_successor_in_failed_data_center_witness:
  "PreventCrossDataCenterMasterFailover crossDataCenterConfig
   \<and> HasAutomatedMasterRecovery (ClusterDetails deadMasterEntry)
   \<and> fst (fst (AttemptRecoveryRegistration crossDataCenterConfig crossDataCenterEnv deadMasterEntry
                  True True emptyWorld)) \<noteq> None
   \<and> (\<exists>tr err w'. checkAndRecoverDeadMaster crossDataCenterConfig crossDataCenterEnv
                      deadMasterEntry None False True emptyWorld = ((True, Some tr, err), w')
          \<and> SuccessorKey tr = None
          \<and> ResolveRecovery (UID tr) None \<in> set (trace w'))"
proof -
  define R where "R = AttemptRecoveryRegistration crossDataCenterConfig crossDataCenterEnv
                        deadMasterEntry (\<not> False) (\<not> False) emptyWorld"
  define D where "D = recoverDeadMaster crossDataCenterConfig crossDataCenterEnv
                        (the (fst (fst R))) None True
                        (emit (CounterInc ''recover.dead_master.start'') (snd R))"
  have h1: "PreventCrossDataCenterMasterFailover crossDataCenterConfig"
    by (simp add: crossDataCenterConfig_def defaultConfig_def)
  have h2a: "HasAutomatedMasterRecovery (ClusterDetails deadMasterEntry)"
    by (simp add: deadMasterEntry_def)
  then have h2: "False \<or> HasAutomatedMasterRecovery (ClusterDetails deadMasterEntry)" by simp
  have r0: "fst (fst R) \<noteq> None"
    using crossDataCenter_registration by (simp add: R_def)
  then have h3: "AttemptRecoveryRegistration crossDataCenterConfig crossDataCenterEnv
                   deadMasterEntry (\<not> False) (\<not> False) emptyWorld
                 = ((Some (the (fst (fst R))), snd (fst R)), snd R)"
    by (cases R) (auto simp: R_def)
  have p0: "fst (fst D) = Some (instanceIn ''r1'' ''m1'' ''dc2'')"
    using crossDataCenter_promoted by (simp add: D_def R_def)
  have h4: "recoverDeadMaster crossDataCenterConfig crossDataCenterEnv (the (fst (fst R))) None True
              (emit (CounterInc ''recover.dead_master.start'') (snd R))
            = ((fst (fst D), fst (snd (fst D)), snd (snd (fst D))), fst (snd D), snd (snd D))"
    by (simp add: D_def)
  have dc: "DataCenter (instanceIn ''r1'' ''m1'' ''dc2'') \<noteq> AnalyzedInstanceDataCenter deadMasterEntry"
    by (simp add: instanceIn_def deadMasterEntry_def)
  from dead_master_successor_in_failed_data_center [OF h1 h2 h3 h4] p0 dc
  obtain tr err w' where
    "checkAndRecoverDeadMaster crossDataCenterConfig crossDataCenterEnv deadMasterEntry None
       False True emptyWorld = ((True, Some tr, err), w')"
    "ResolveRecovery (UID tr) (SuccessorKey tr) \<in> set (trace w')"
    "SuccessorKey tr = None"
    by blast
  with h1 h2a r0 show ?thesis by (auto simp: R_def)
qed

text \<open>
  C4: the gates applied to the replica \<open>p\<close> that \<open>recoverDeadMaster\<close> promoted. A geographic
  violation cancels the promotion. Otherwise, with the fail flag and a SQL thread that is not
  up to date the promotion is cancelled and nothing is waited for, whatever the delay flag
  says. Otherwise, with the delay flag and a SQL thread that is not up to date the executor
  waits, and the promotion stands when the wait succeeds. Otherwise the promotion stands.
\<close>

theorem dead_master_override_gates:
  assumes gate: "force \<or> HasAutomatedMasterRecovery (ClusterDetails e)"
    and reg: "AttemptRecoveryRegistration cfg env e (\<not> force) (\<not> force) w = ((Some tr0, rerr), w0)"
    and rdm: "recoverDeadMaster cfg env tr0 cand skip (emit (CounterInc ''recover.dead_master.start'') w0)
                = ((Some p, lost, err1), tr1, w1)"
  shows "\<exists>tr err w'. checkAndRecoverDeadMaster cfg env e cand force skip w = ((True, Some tr, err), w')
     \<and> (\<not> fst (MasterFailoverGeographicConstraintSatisfied cfg e p) \<longrightarrow>
           SuccessorKey tr = None
           \<and> err = Some (ErrGeographicConstraint (Key p)
                           (snd (MasterFailoverGeographicConstraintSatisfied cfg e p))))
     \<and> (fst (MasterFailoverGeographicConstraintSatisfied cfg e p)
          \<and> FailMasterPromotionIfSQLThreadNotUpToDate cfg \<and> \<not> SQLThreadUpToDate p \<longrightarrow>
           SuccessorKey tr = None
           \<and> err = Some (ErrFailPromotionSQLThreadNotUpToDate (Key p))
           \<and> snd (overrideMasterPromotion cfg env e (Some p) err1 w1) = w1)
     \<and> (fst (MasterFailoverGeographicConstraintSatisfied cfg e p)
          \<and> \<not> FailMasterPromotionIfSQLThreadNotUpToDate cfg
          \<and> DelayMasterPromotionIfSQLThreadNotUpToDate cfg \<and> \<not> SQLThreadUpToDate p \<longrightarrow>
           WaitForSQLThreadUpToDate (Key p) \<in> set (trace w')
           \<and> SuccessorKey tr =
               (case instCall env (trace w1) (WaitForSQLThreadUpToDate (Key p)) of
                  Ok x \<Rightarrow> Some (Key p) | Failed x e \<Rightarrow> None))
     \<and> (fst (MasterFailoverGeographicConstraintSatisfied cfg e p)
          \<and> (SQLThreadUpToDate p
               \<or> \<not> FailMasterPromotionIfSQLThreadNotUpToDate cfg
                  \<and> \<not> DelayMasterPromotionIfSQLThreadNotUpToDate cfg) \<longrightarrow>
           SuccessorKey tr = Some (Key p) \<and> err = err1)"
proof -
  obtain final err2 w2 where
    ovr: "overrideMasterPromotion cfg env e (Some p) err1 w1 = ((final, err2), w2)"
    by (metis prod.exhaust)
  from checkAndRecoverDeadMaster_resolution[OF gate reg rdm ovr]
  obtain tr w' where
    res: "checkAndRecoverDeadMaster cfg env e cand force skip w = ((True, Some tr, err2), w')"
    and sk: "SuccessorKey tr = map_option Key final"
    and sub: "set (trace w2) \<subseteq> set (trace w')"
    by blast
  have a: "\<not> fst (MasterFailoverGeographicConstraintSatisfied cfg e p) \<longrightarrow>
           SuccessorKey tr = None
           \<and> err2 = Some (ErrGeographicConstraint (Key p)
                           (snd (MasterFailoverGeographicConstraintSatisfied cfg e p)))"
    using ovr sk by (auto simp: overrideMasterPromotion_cases)
  have b: "fst (MasterFailoverGeographicConstraintSatisfied cfg e p)
          \<and> FailMasterPromotionIfSQLThreadNotUpToDate cfg \<and> \<not> SQLThreadUpToDate p \<longrightarrow>
           SuccessorKey tr = None
           \<and> err2 = Some (ErrFailPromotionSQLThreadNotUpToDate (Key p))
           \<and> snd (overrideMasterPromotion cfg env e (Some p) err1 w1) = w1"
    using ovr sk by (auto simp: overrideMasterPromotion_cases)
  have c: "fst (MasterFailoverGeographicConstraintSatisfied cfg e p)
          \<and> \<not> FailMasterPromotionIfSQLThreadNotUpToDate cfg
          \<and> DelayMasterPromotionIfSQLThreadNotUpToDate cfg \<and> \<not> SQLThreadUpToDate p \<longrightarrow>
           WaitForSQLThreadUpToDate (Key p) \<in> set (trace w')
           \<and> SuccessorKey tr =
               (case instCall env (trace w1) (WaitForSQLThreadUpToDate (Key p)) of
                  Ok x \<Rightarrow> Some (Key p) | Failed x e \<Rightarrow> None)"
    using ovr sk sub by (auto simp: overrideMasterPromotion_cases split: InstResult.splits)
  have d: "fst (MasterFailoverGeographicConstraintSatisfied cfg e p)
          \<and> (SQLThreadUpToDate p
               \<or> \<not> FailMasterPromotionIfSQLThreadNotUpToDate cfg
                  \<and> \<not> DelayMasterPromotionIfSQLThreadNotUpToDate cfg) \<longrightarrow>
           SuccessorKey tr = Some (Key p) \<and> err2 = err1"
    using ovr sk by (auto simp: overrideMasterPromotion_cases)
  from res a b c d show ?thesis by blast
qed

lemma failAndDelay_registration:
  "fst (fst (AttemptRecoveryRegistration failAndDelayConfig laggingEnv deadMasterEntry
               True True emptyWorld)) \<noteq> None"
  by code_simp

lemma failAndDelay_promoted:
  "fst (recoverDeadMaster failAndDelayConfig laggingEnv
          (the (fst (fst (AttemptRecoveryRegistration failAndDelayConfig laggingEnv
                            deadMasterEntry True True emptyWorld))))
          None True
          (emit (CounterInc ''recover.dead_master.start'')
             (snd (AttemptRecoveryRegistration failAndDelayConfig laggingEnv
                     deadMasterEntry True True emptyWorld))))
      = (Some laggingReplica, [], None)"
  by code_simp

theorem dead_master_override_gates_witness:
  "HasAutomatedMasterRecovery (ClusterDetails deadMasterEntry)
   \<and> fst (fst (AttemptRecoveryRegistration failAndDelayConfig laggingEnv deadMasterEntry
                  True True emptyWorld)) \<noteq> None
   \<and> fst (MasterFailoverGeographicConstraintSatisfied failAndDelayConfig deadMasterEntry laggingReplica)
   \<and> FailMasterPromotionIfSQLThreadNotUpToDate failAndDelayConfig
   \<and> DelayMasterPromotionIfSQLThreadNotUpToDate failAndDelayConfig
   \<and> \<not> SQLThreadUpToDate laggingReplica
   \<and> (\<exists>tr w'. checkAndRecoverDeadMaster failAndDelayConfig laggingEnv deadMasterEntry None
                  False True emptyWorld
                = ((True, Some tr, Some (ErrFailPromotionSQLThreadNotUpToDate (Key laggingReplica))), w')
          \<and> SuccessorKey tr = None)"
proof -
  define R where "R = AttemptRecoveryRegistration failAndDelayConfig laggingEnv
                        deadMasterEntry (\<not> False) (\<not> False) emptyWorld"
  define D where "D = recoverDeadMaster failAndDelayConfig laggingEnv
                        (the (fst (fst R))) None True
                        (emit (CounterInc ''recover.dead_master.start'') (snd R))"
  have h2a: "HasAutomatedMasterRecovery (ClusterDetails deadMasterEntry)"
    by (simp add: deadMasterEntry_def)
  then have h2: "False \<or> HasAutomatedMasterRecovery (ClusterDetails deadMasterEntry)" by simp
  have r0: "fst (fst R) \<noteq> None"
    using failAndDelay_registration by (simp add: R_def)
  then have h3: "AttemptRecoveryRegistration failAndDelayConfig laggingEnv
                   deadMasterEntry (\<not> False) (\<not> False) emptyWorld
                 = ((Some (the (fst (fst R))), snd (fst R)), snd R)"
    by (cases R) (auto simp: R_def)
  have p0: "fst D = (Some laggingReplica, [], None)"
    using failAndDelay_promoted by (simp add: D_def R_def)
  then have h4: "recoverDeadMaster failAndDelayConfig laggingEnv (the (fst (fst R))) None True
              (emit (CounterInc ''recover.dead_master.start'') (snd R))
            = ((Some laggingReplica, [], None), fst (snd D), snd (snd D))"
    by (cases D) (auto simp: D_def)
  have g: "fst (MasterFailoverGeographicConstraintSatisfied failAndDelayConfig deadMasterEntry
                  laggingReplica)"
    by (simp add: MasterFailoverGeographicConstraintSatisfied_def failAndDelayConfig_def
        defaultConfig_def)
  have f: "FailMasterPromotionIfSQLThreadNotUpToDate failAndDelayConfig"
    "DelayMasterPromotionIfSQLThreadNotUpToDate failAndDelayConfig"
    by (simp_all add: failAndDelayConfig_def defaultConfig_def)
  have u: "\<not> SQLThreadUpToDate laggingReplica"
    by (simp add: laggingReplica_def)
  from dead_master_override_gates [OF h2 h3 h4] g f u
  obtain tr err w' where
    "checkAndRecoverDeadMaster failAndDelayConfig laggingEnv deadMasterEntry None
       False True emptyWorld = ((True, Some tr, err), w')"
    "SuccessorKey tr = None"
    "err = Some (ErrFailPromotionSQLThreadNotUpToDate (Key laggingReplica))"
    by blast
  with h2a r0 g f u show ?thesis by (auto simp: R_def)
qed

section \<open>A failed pre failover hook in the recovery of an intermediate master\<close>

text \<open>
  Claim C2, evaluated on the dead intermediate master \<open>im1\<close> with a failing pre failover hook:
  the recovery is attempted and has no successor, the hooks for unsuccessful failovers run, but
  \<open>RecoverDeadIntermediateMaster\<close> returns before its call of \<open>resolveRecovery\<close>: no resolution
  is published and the registered recovery stays active. On the dead master \<open>m1\<close>, with the same
  configuration, \<open>checkAndRecoverDeadMaster\<close> publishes the resolution with no successor after
  the same hook failure.
\<close>

theorem intermediate_master_pre_hook_failure_unresolved:
  "(case executeCheckAndRecoverFunction failingHookConfig failingHookEnv
           deadIntermediateMasterEntry None False False emptyWorld of
      ((recoveryAttempted, topologyRecovery, err), w) \<Rightarrow>
        recoveryAttempted
        \<and> map_option SuccessorKey topologyRecovery = Some None
        \<and> err = Some (ExternalError ''exit status 1'')
        \<and> trace w
            = [AttemptFailureDetectionRegistration (keyOf ''im1''),
               HooksBatch ''OnFailureDetectionProcesses'' 0,
               IsRecoveryDisabled,
               RegisterRecovery ''uid-1'' (keyOf ''im1''),
               CounterInc ''recover.dead_intermediate_master.start'',
               HooksBatch ''PreFailoverProcesses'' 1,
               CommandRun ''PreFailoverProcesses'' ''false'',
               CounterInc ''recover.dead_intermediate_master.fail'',
               HooksBatch ''PostUnsuccessfulFailoverProcesses'' 1,
               CommandRun ''PostUnsuccessfulFailoverProcesses'' ''alert'',
               WaitPostponedFunctions 0]
        \<and> map rowIsActive (recoveries w) = [True])
   \<and> (case executeCheckAndRecoverFunction failingHookConfig failingHookEnv
           deadMasterEntry None False False emptyWorld of
      ((recoveryAttempted, topologyRecovery, err), w) \<Rightarrow>
        recoveryAttempted
        \<and> map_option SuccessorKey topologyRecovery = Some None
        \<and> err = Some (ExternalError ''exit status 1'')
        \<and> trace w
            = [AttemptFailureDetectionRegistration (keyOf ''m1''),
               HooksBatch ''OnFailureDetectionProcesses'' 0,
               IsRecoveryDisabled,
               RegisterRecovery ''uid-1'' (keyOf ''m1''),
               CounterInc ''recover.dead_master.start'',
               HooksBatch ''PreFailoverProcesses'' 1,
               CommandRun ''PreFailoverProcesses'' ''false'',
               ResolveRecovery ''uid-1'' None,
               CounterInc ''recover.dead_master.fail'',
               HooksBatch ''PostUnsuccessfulFailoverProcesses'' 1,
               CommandRun ''PostUnsuccessfulFailoverProcesses'' ''alert'',
               WaitPostponedFunctions 0]
        \<and> map rowIsActive (recoveries w) = [False])"
  by code_simp

section \<open>The promoted replica of a dead co-master and the replication circle\<close>

text \<open>
  Claim C8, evaluated on the co-masters \<open>m1\<close> and \<open>m2\<close>, \<open>m2\<close> dead, its replica \<open>r1\<close>
  promoted, with \<open>DelayMasterPromotionIfSQLThreadNotUpToDate\<close>. When the wait for the SQL thread
  fails, \<open>RecoverDeadCoMaster\<close> returns the promoted replica before the detach: the recovery is
  resolved with the successor \<open>r1\<close>, which is not the other co-master \<open>m1\<close>, and
  \<open>DetachReplicaMasterHost\<close> is never called. When the wait succeeds, \<open>r1\<close> is detached.
\<close>

theorem dead_co_master_failed_wait_skips_detach:
  "(case executeCheckAndRecoverFunction delayConfig waitFailsEnv
           deadCoMasterEntry None False False emptyWorld of
      ((recoveryAttempted, topologyRecovery, err), w) \<Rightarrow>
        recoveryAttempted
        \<and> map_option SuccessorKey topologyRecovery = Some (Some (keyOf ''r1''))
        \<and> keyOf ''r1'' \<noteq> AnalyzedInstanceMasterKey deadCoMasterEntry
        \<and> trace w
            = [AttemptFailureDetectionRegistration (keyOf ''m2''),
               HooksBatch ''OnFailureDetectionProcesses'' 0,
               IsRecoveryDisabled,
               RegisterRecovery ''uid-1'' (keyOf ''m2''),
               CounterInc ''recover.dead_co_master.start'',
               ReadInstance (keyOf ''m1''),
               HooksBatch ''PreFailoverProcesses'' 0,
               RegroupReplicasGTID (keyOf ''m2''),
               SuggestReplacementForPromotedReplica (keyOf ''m2'') (keyOf ''r1'') None,
               WaitForSQLThreadUpToDate (keyOf ''r1''),
               ResolveRecovery ''uid-1'' (Some (keyOf ''r1'')),
               CounterInc ''recover.dead_co_master.success'',
               HooksBatch ''PostMasterFailoverProcesses'' 0,
               EndDowntime (keyOf ''r1''),
               HooksBatch ''PostFailoverProcesses'' 0,
               WaitPostponedFunctions 0]
        \<and> DetachReplicaMasterHost (keyOf ''r1'') \<notin> set (trace w)
        \<and> map rowSuccessorKey (recoveries w) = [Some (keyOf ''r1'')])
   \<and> (case executeCheckAndRecoverFunction delayConfig waitSucceedsEnv
           deadCoMasterEntry None False False emptyWorld of
      ((recoveryAttempted, topologyRecovery, err), w) \<Rightarrow>
        map_option SuccessorKey topologyRecovery = Some (Some (keyOf ''r1''))
        \<and> trace w
            = [AttemptFailureDetectionRegistration (keyOf ''m2''),
               HooksBatch ''OnFailureDetectionProcesses'' 0,
               IsRecoveryDisabled,
               RegisterRecovery ''uid-1'' (keyOf ''m2''),
               CounterInc ''recover.dead_co_master.start'',
               ReadInstance (keyOf ''m1''),
               HooksBatch ''PreFailoverProcesses'' 0,
               RegroupReplicasGTID (keyOf ''m2''),
               SuggestReplacementForPromotedReplica (keyOf ''m2'') (keyOf ''r1'') None,
               WaitForSQLThreadUpToDate (keyOf ''r1''),
               DetachReplicaMasterHost (keyOf ''r1''),
               BeginDowntime (keyOf ''m2''),
               AcknowledgeInstanceFailureDetection (keyOf ''m2''),
               ResolveRecovery ''uid-1'' (Some (keyOf ''r1'')),
               CounterInc ''recover.dead_co_master.success'',
               HooksBatch ''PostMasterFailoverProcesses'' 0,
               EndDowntime (keyOf ''r1''),
               HooksBatch ''PostFailoverProcesses'' 0,
               WaitPostponedFunctions 0])"
  by code_simp

end
